theory Spec2Isabelle
  imports Main "HOL-Library.Word"
begin

section \<open>The migration deac06871ace: the marketplace\_sources table\<close>

text \<open>
  Source: \<^verbatim>\<open>mlrun/api/migrations/versions/deac06871ace_adding_marketplace_sources_table.py\<close>.
  The script is two Alembic operations: \<^verbatim>\<open>upgrade\<close> calls \<^verbatim>\<open>op.create_table\<close> with six
  columns and two constraints, \<^verbatim>\<open>downgrade\<close> calls \<^verbatim>\<open>op.drop_table\<close>.

  The database is explicit state: a map from table names to tables, a table being its
  declaration (columns and constraints, as the script gives them) and its stored rows.
\<close>

subsection \<open>Declarations: column types, columns, constraints\<close>

text \<open>The four SQLAlchemy column types the script uses (\<^verbatim>\<open>sa.Integer()\<close> and so on).\<close>

datatype sa_type = SA_Integer | SA_String | SA_TIMESTAMP | SA_JSON

text \<open>\<^verbatim>\<open>sa.Column(name, type, nullable=...)\<close>.\<close>

record Column =
  col_name :: string
  col_type :: sa_type
  nullable :: bool

text \<open>
  \<^verbatim>\<open>sa.PrimaryKeyConstraint(*columns)\<close> and \<^verbatim>\<open>sa.UniqueConstraint(*columns, name=...)\<close>.
\<close>

datatype Constraint =
    PrimaryKeyConstraint "string list"
  | UniqueConstraint "string list" "string option"

record Table =
  columns :: "Column list"
  constraints :: "Constraint list"

subsection \<open>Stored data\<close>

text \<open>
  The engine is SQLite, the database these migrations are run against by default. A
  value is of one of its storage classes: an INTEGER is a signed 64-bit integer, a TEXT
  is a string (timestamps and JSON payloads are bound as text). An integer outside the
  64-bit range is no value of the engine (the driver refuses to bind it), so it is no
  value of this type either. Floating-point values and blobs are outside this model. SQL's NULL is the absence of a value, so a row is a
  partial map from column names to values.
\<close>

datatype sql_value = SqlInt "64 word" | SqlStr string

type_synonym row = "string \<rightharpoonup> sql_value"

record stored_table =
  tdef :: Table
  trows :: "row list"

type_synonym database = "string \<rightharpoonup> stored_table"

datatype db_error = TableExists | NoSuchTable | IntegrityError

subsection \<open>The two Alembic operations the script calls\<close>

text \<open>
  \<^verbatim>\<open>op.create_table(name, *columns_and_constraints)\<close> issues CREATE TABLE: the statement
  fails when the table is already there, and creates it empty otherwise.
\<close>

definition create_table ::
    "string \<Rightarrow> Column list \<Rightarrow> Constraint list \<Rightarrow> database \<Rightarrow> db_error + database" where
  "create_table tn cols cons db =
     (case db tn of
        Some t \<Rightarrow> Inl TableExists
      | None \<Rightarrow> Inr (db(tn \<mapsto> \<lparr>tdef = \<lparr>columns = cols, constraints = cons\<rparr>, trows = []\<rparr>)))"

text \<open>\<^verbatim>\<open>op.drop_table(name)\<close> issues DROP TABLE: it fails when there is no such table.\<close>

definition drop_table :: "string \<Rightarrow> database \<Rightarrow> db_error + database" where
  "drop_table tn db =
     (case db tn of
        None \<Rightarrow> Inl NoSuchTable
      | Some t \<Rightarrow> Inr (db(tn := None)))"

subsection \<open>The script\<close>

definition upgrade :: "database \<Rightarrow> db_error + database" where
  "upgrade db =
     create_table ''marketplace_sources''
       [\<lparr>col_name = ''id'', col_type = SA_Integer, nullable = False\<rparr>,
        \<lparr>col_name = ''name'', col_type = SA_String, nullable = True\<rparr>,
        \<lparr>col_name = ''index'', col_type = SA_Integer, nullable = True\<rparr>,
        \<lparr>col_name = ''created'', col_type = SA_TIMESTAMP, nullable = True\<rparr>,
        \<lparr>col_name = ''updated'', col_type = SA_TIMESTAMP, nullable = True\<rparr>,
        \<lparr>col_name = ''object'', col_type = SA_JSON, nullable = True\<rparr>]
       [PrimaryKeyConstraint [''id''],
        UniqueConstraint [''name''] (Some ''_marketplace_sources_uc'')]
       db"

definition downgrade :: "database \<Rightarrow> db_error + database" where
  "downgrade db = drop_table ''marketplace_sources'' db"

subsection \<open>What the storage layer does on an insert\<close>

text \<open>
  The script only declares the table; the engine stores the rows and enforces the
  declaration. What SQLite does with a row inserted into a table is modelled below, in
  the order in which the engine does it:
  \<^enum> each value is converted to the stored form the declared type of its column asks
    for (type affinity);
  \<^enum> a column that is the table's integer primary key is the row's rowid: a row
    without it is given a new one, and a value that is no integer is refused;
  \<^enum> a column declared \<^verbatim>\<open>nullable=False\<close> must hold a value;
  \<^enum> no stored row may have the same primary key, or the same values in the columns
    of a unique constraint; NULL is not equal to NULL, so a row with NULL in such a
    column never conflicts.
  Every refusal is an integrity error.

  Two things the engine does are not computed here but taken as parameters: how it reads
  a text as an integer (it reads numbers through floating point), and which unused rowid
  it draws at random once the largest possible one is in use.
\<close>

record engine =
  text_integer :: "string \<Rightarrow> 64 word option"
  random_rowid :: "64 word list \<Rightarrow> 64 word"

text \<open>
  The affinity of a column, from its declared type: \<^verbatim>\<open>INTEGER\<close> columns have INTEGER
  affinity, \<^verbatim>\<open>VARCHAR\<close> columns TEXT affinity, \<^verbatim>\<open>TIMESTAMP\<close> and \<^verbatim>\<open>JSON\<close> columns NUMERIC
  affinity.
\<close>

datatype affinity = AFF_INTEGER | AFF_TEXT | AFF_NUMERIC

fun affinity_of :: "sa_type \<Rightarrow> affinity" where
  "affinity_of SA_Integer = AFF_INTEGER"
| "affinity_of SA_String = AFF_TEXT"
| "affinity_of SA_TIMESTAMP = AFF_NUMERIC"
| "affinity_of SA_JSON = AFF_NUMERIC"

text \<open>The text of an integer: its decimal digits, after a minus sign when it is negative.\<close>

definition digit_char :: "nat \<Rightarrow> char" where
  "digit_char d = ''0123456789'' ! d"

function decimal :: "nat \<Rightarrow> string" where
  "decimal n = (if n < 10 then [digit_char n] else decimal (n div 10) @ [digit_char (n mod 10)])"
  by pat_completeness auto
termination
  by (relation "measure id") auto

declare decimal.simps [simp del]

definition integer_text :: "64 word \<Rightarrow> string" where
  "integer_text i =
     (if sint i < 0 then CHR ''-'' # decimal (nat (- sint i)) else decimal (nat (sint i)))"

text \<open>
  The stored form of a value. Under TEXT affinity an integer becomes its text. Under
  INTEGER and NUMERIC affinity a text that the engine reads as an integer becomes that
  integer, and any other text stays as it is (a text the engine reads as a number that
  is no 64-bit integer would become a floating-point value, which is outside this model).
\<close>

fun apply_affinity :: "engine \<Rightarrow> affinity \<Rightarrow> sql_value \<Rightarrow> sql_value" where
  "apply_affinity eng AFF_TEXT (SqlInt i) = SqlStr (integer_text i)"
| "apply_affinity eng AFF_TEXT (SqlStr x) = SqlStr x"
| "apply_affinity eng a (SqlInt i) = SqlInt i"
| "apply_affinity eng a (SqlStr x) =
     (case text_integer eng x of Some i \<Rightarrow> SqlInt i | None \<Rightarrow> SqlStr x)"

text \<open>
  The declared type of each column, and the stored form of a row: the row is read at the
  table's columns only.
\<close>

definition column_types :: "Table \<Rightarrow> (string \<times> sa_type) list" where
  "column_types t = map (\<lambda>c. (col_name c, col_type c)) (columns t)"

definition stored_form :: "engine \<Rightarrow> Table \<Rightarrow> row \<Rightarrow> row" where
  "stored_form eng t r =
     (\<lambda>c. case map_of (column_types t) c of
             None \<Rightarrow> None
           | Some ty \<Rightarrow> map_option (apply_affinity eng (affinity_of ty)) (r c))"

text \<open>
  The rowid column of a table: the column of a primary key that is a single column
  declared \<^verbatim>\<open>INTEGER\<close>, if the table has one.
\<close>

fun integer_primary_key :: "Table \<Rightarrow> Constraint list \<Rightarrow> string option" where
  "integer_primary_key t [] = None"
| "integer_primary_key t (PrimaryKeyConstraint [c] # cs) =
     (if map_of (column_types t) c = Some SA_Integer then Some c
      else integer_primary_key t cs)"
| "integer_primary_key t (x # cs) = integer_primary_key t cs"

text \<open>The rowids in use: the integers the stored rows hold in that column.\<close>

definition rowids :: "string \<Rightarrow> row list \<Rightarrow> 64 word list" where
  "rowids c rs = List.map_filter (\<lambda>r. case r c of Some (SqlInt i) \<Rightarrow> Some i | _ \<Rightarrow> None) rs"

fun largest_rowid :: "64 word list \<Rightarrow> 64 word option" where
  "largest_rowid [] = None"
| "largest_rowid (i # ids) = Some (fold (\<lambda>j m. if sint m < sint j then j else m) ids i)"

text \<open>
  The rowid given to a row inserted without one: 1 in an empty table, otherwise one more
  than the largest rowid in use; when that is the largest possible integer, the engine
  draws an unused rowid at random.
\<close>

definition new_rowid :: "engine \<Rightarrow> 64 word list \<Rightarrow> 64 word" where
  "new_rowid eng ids =
     (case largest_rowid ids of
        None \<Rightarrow> 1
      | Some m \<Rightarrow> if sint m < 9223372036854775807 then m + 1 else random_rowid eng ids)"

text \<open>
  The row with its rowid: a row without one is given the new rowid; a text in the rowid
  column (one that the engine did not read as an integer) is a datatype mismatch, and
  the row is refused. A table without a rowid column leaves the row as it is. A drawn
  rowid is checked by the primary key like a given one (the engine would draw again,
  and give up after a number of failed draws: that is a matter of chance, and not part
  of this model).
\<close>

definition with_rowid :: "engine \<Rightarrow> Table \<Rightarrow> row list \<Rightarrow> row \<Rightarrow> row option" where
  "with_rowid eng t rs s =
     (case integer_primary_key t (constraints t) of
        None \<Rightarrow> Some s
      | Some c \<Rightarrow>
          (case s c of
             None \<Rightarrow> Some (s(c \<mapsto> SqlInt (new_rowid eng (rowids c rs))))
           | Some (SqlInt i) \<Rightarrow> Some s
           | Some (SqlStr x) \<Rightarrow> None))"

text \<open>
  The same step read off the value the row gives for the rowid column: none, and the row
  gets the new rowid; an integer; or a text, which the engine reads as an integer or not.
\<close>

definition given_rowid :: "engine \<Rightarrow> 64 word list \<Rightarrow> sql_value option \<Rightarrow> 64 word option" where
  "given_rowid eng ids v =
     (case v of
        None \<Rightarrow> Some (new_rowid eng ids)
      | Some (SqlInt i) \<Rightarrow> Some i
      | Some (SqlStr x) \<Rightarrow> text_integer eng x)"

definition not_null_ok :: "Table \<Rightarrow> row \<Rightarrow> bool" where
  "not_null_ok t r = list_all (\<lambda>c. nullable c \<or> r (col_name c) \<noteq> None) (columns t)"

text \<open>
  A primary key and a unique constraint are both enforced as uniqueness of the stored
  values of their columns, NULLs never conflicting.
\<close>

definition no_conflict :: "string list \<Rightarrow> row list \<Rightarrow> row \<Rightarrow> bool" where
  "no_conflict cols rs r =
     (list_ex (\<lambda>c. r c = None) cols \<or> list_all (\<lambda>r'. map r' cols \<noteq> map r cols) rs)"

fun constraint_ok :: "Constraint \<Rightarrow> row list \<Rightarrow> row \<Rightarrow> bool" where
  "constraint_ok (PrimaryKeyConstraint cols) rs r = no_conflict cols rs r"
| "constraint_ok (UniqueConstraint cols nm) rs r = no_conflict cols rs r"

definition insert_row :: "engine \<Rightarrow> string \<Rightarrow> row \<Rightarrow> database \<Rightarrow> db_error + database" where
  "insert_row eng tn r db =
     (case db tn of
        None \<Rightarrow> Inl NoSuchTable
      | Some t \<Rightarrow>
          (case with_rowid eng (tdef t) (trows t) (stored_form eng (tdef t) r) of
             None \<Rightarrow> Inl IntegrityError
           | Some s \<Rightarrow>
               if not_null_ok (tdef t) s
                  \<and> list_all (\<lambda>c. constraint_ok c (trows t) s) (constraints (tdef t))
               then Inr (db(tn \<mapsto> t\<lparr>trows := trows t @ [s]\<rparr>))
               else Inl IntegrityError))"

text \<open>
  A sequence of insert attempts into one table: a rejected insert leaves the database as
  it was, and the next one is tried.
\<close>

fun insert_rows :: "engine \<Rightarrow> string \<Rightarrow> row list \<Rightarrow> database \<Rightarrow> database" where
  "insert_rows eng tn [] db = db"
| "insert_rows eng tn (r # rs) db =
     (case insert_row eng tn r db of
        Inl e \<Rightarrow> insert_rows eng tn rs db
      | Inr db' \<Rightarrow> insert_rows eng tn rs db')"

text \<open>
  A script of operations run in order, stopping at the first one that fails (the
  exception leaves the script).
\<close>

fun run :: "(database \<Rightarrow> db_error + database) list \<Rightarrow> database \<Rightarrow> db_error + database" where
  "run [] db = Inr db"
| "run (f # fs) db = (case f db of Inl e \<Rightarrow> Inl e | Inr db' \<Rightarrow> run fs db')"

text \<open>The rows of a table (none when the table does not exist), and their names.\<close>

definition rows_of :: "string \<Rightarrow> database \<Rightarrow> row list" where
  "rows_of tn db = (case db tn of None \<Rightarrow> [] | Some t \<Rightarrow> trows t)"

definition names_of :: "row list \<Rightarrow> sql_value option list" where
  "names_of rs = map (\<lambda>r. r ''name'') rs"

text \<open>The names that are present: the NULLs dropped.\<close>

definition present_names :: "row list \<Rightarrow> sql_value list" where
  "present_names rs = List.map_filter id (names_of rs)"

text \<open>
  An engine for the concrete inputs below, which hold no text in an integer column and
  never use the largest rowid, so that neither parameter is consulted: it reads no text
  as an integer, and draws the rowid 1.
\<close>

definition plain_engine :: engine where
  "plain_engine = \<lparr>text_integer = (\<lambda>x. None), random_rowid = (\<lambda>ids. 1)\<rparr>"

section \<open>The frontend spec schemas\<close>

text \<open>
  Source: \<^verbatim>\<open>mlrun/api/schemas/frontend_spec.py\<close>. The two feature flags are string-valued
  enumerations (\<^verbatim>\<open>class ...(str, enum.Enum)\<close>), and \<^verbatim>\<open>FeatureFlags\<close> is a pydantic model
  with one required field of each.
\<close>

datatype ProjectMembershipFeatureFlag = enabled | disabled

datatype AuthenticationFeatureFlag = none | basic | bearer | iguazio

text \<open>The members in declaration order, and the value each member is declared with.\<close>

definition ProjectMembershipFeatureFlag_members :: "ProjectMembershipFeatureFlag list" where
  "ProjectMembershipFeatureFlag_members = [enabled, disabled]"

fun ProjectMembershipFeatureFlag_value :: "ProjectMembershipFeatureFlag \<Rightarrow> string" where
  "ProjectMembershipFeatureFlag_value enabled = ''enabled''"
| "ProjectMembershipFeatureFlag_value disabled = ''disabled''"

definition AuthenticationFeatureFlag_members :: "AuthenticationFeatureFlag list" where
  "AuthenticationFeatureFlag_members = [none, basic, bearer, iguazio]"

fun AuthenticationFeatureFlag_value :: "AuthenticationFeatureFlag \<Rightarrow> string" where
  "AuthenticationFeatureFlag_value none = ''none''"
| "AuthenticationFeatureFlag_value basic = ''basic''"
| "AuthenticationFeatureFlag_value bearer = ''bearer''"
| "AuthenticationFeatureFlag_value iguazio = ''iguazio''"

text \<open>
  The raw values a field can be given before validation (what a decoded JSON body
  holds at that key).
\<close>

datatype py_value = PyNone | PyBool bool | PyInt int | PyStr string

text \<open>
  \<^verbatim>\<open>EnumClass(value)\<close>: Python looks the member up by value and raises \<^verbatim>\<open>ValueError\<close>
  when no member has it. The members' values are strings, and a string is equal only to
  a string of the same characters, so only a \<^verbatim>\<open>str\<close> can be found.
\<close>

definition enum_by_value :: "('e \<Rightarrow> string) \<Rightarrow> 'e list \<Rightarrow> py_value \<Rightarrow> 'e option" where
  "enum_by_value val members v = find (\<lambda>m. PyStr (val m) = v) members"

record FeatureFlags =
  project_membership :: ProjectMembershipFeatureFlag
  authentication :: AuthenticationFeatureFlag

text \<open>
  A pydantic validation error: the fields that were refused, in declaration order
  (pydantic validates every field and raises one error that lists them all).
\<close>

datatype validation_error = ValidationError "string list"

text \<open>
  Validation of one required enumeration field of the input: a missing key and a value
  that is no member's value are both refused.
\<close>

definition validate_field ::
    "('e \<Rightarrow> string) \<Rightarrow> 'e list \<Rightarrow> (string \<rightharpoonup> py_value) \<Rightarrow> string \<Rightarrow> 'e option" where
  "validate_field val members d k =
     (case d k of None \<Rightarrow> None | Some v \<Rightarrow> enum_by_value val members v)"

text \<open>
  \<^verbatim>\<open>FeatureFlags(**d)\<close> (or \<^verbatim>\<open>FeatureFlags.parse_obj(d)\<close>): both fields are validated, and
  the model is built when both are accepted. Keys of \<open>d\<close> that are no field are ignored.
\<close>

definition validate_FeatureFlags :: "(string \<rightharpoonup> py_value) \<Rightarrow> validation_error + FeatureFlags" where
  "validate_FeatureFlags d =
     (let pm = validate_field ProjectMembershipFeatureFlag_value
                 ProjectMembershipFeatureFlag_members d ''project_membership'';
          au = validate_field AuthenticationFeatureFlag_value
                 AuthenticationFeatureFlag_members d ''authentication''
      in case (pm, au) of
           (Some p, Some a) \<Rightarrow> Inr \<lparr>project_membership = p, authentication = a\<rparr>
         | _ \<Rightarrow> Inl (ValidationError
                  ((if pm = None then [''project_membership''] else []) @
                   (if au = None then [''authentication''] else []))))"

section \<open>The TSDB connector\<close>

text \<open>
  Source: \<^verbatim>\<open>mlrun/model_monitoring/db/tsdb/base.py\<close>, the abstract base class
  \<^verbatim>\<open>TSDBConnector\<close>. The class gives each operation's name, parameters, defaults, declared
  return type and documented contract. Its own method bodies are empty, and
  \<^verbatim>\<open>get_records\<close>, \<^verbatim>\<open>read_metrics_data\<close>, \<^verbatim>\<open>read_predictions\<close> and
  \<^verbatim>\<open>read_prediction_metric_for_endpoint_if_exists\<close> are abstract: the backends that
  implement them, and the schema types of \<^verbatim>\<open>mlrun.common.schemas.model_monitoring\<close>, live
  in other modules than this one.

  The signatures below are the source's. The types of the schema module and the bodies
  of the operations are modelled from the documented contract, over an explicit store:
  the tables of the backend, each a list of timestamped records.
\<close>

subsection \<open>Types\<close>

text \<open>
  Modelled from the spec: \<^verbatim>\<open>mm_schemas.WriterEventKind\<close> is not in the sources. The
  signature of \<^verbatim>\<open>write_application_event\<close> names its member \<^verbatim>\<open>RESULT\<close>, the class
  docstring names the two kinds of application events (results and metrics), and the
  spec gives the default kind as the string \<^verbatim>\<open>result\<close>.
\<close>

datatype WriterEventKind = METRIC | RESULT

fun WriterEventKind_value :: "WriterEventKind \<Rightarrow> string" where
  "WriterEventKind_value METRIC = ''metric''"
| "WriterEventKind_value RESULT = ''result''"

text \<open>The two errors the docstrings name.\<close>

datatype mlrun_error = MLRunRuntimeError | MLRunNotFoundError

text \<open>The parameter \<^verbatim>\<open>type: typing.Literal["metrics", "results"]\<close> of \<^verbatim>\<open>read_metrics_data\<close>.\<close>

datatype metrics_or_results = TYPE_metrics | TYPE_results

text \<open>
  Modelled from the spec: \<^verbatim>\<open>mm_schemas.ModelEndpointMonitoringMetric\<close> is not in the
  sources; the spec describes it as the descriptor of a named metric or result. It is
  identified by its full name.
\<close>

record ModelEndpointMonitoringMetric =
  full_name :: string

text \<open>
  Modelled from the spec: the three reply types of the schema module are not in the
  sources. The declared return types of \<^verbatim>\<open>read_metrics_data\<close> and \<^verbatim>\<open>read_predictions\<close>
  are unions of them: the values of a metric, the values of a result (a different value
  shape), and the tagged marker that a descriptor has no data. Values are a series of
  timestamped payloads; the payload type is left open.
\<close>

datatype 'v reply =
    ModelEndpointMonitoringMetricValues string "(int \<times> 'v) list"
  | ModelEndpointMonitoringResultValues string "(int \<times> 'v) list"
  | ModelEndpointMonitoringMetricNoData string metrics_or_results

fun reply_full_name :: "'v reply \<Rightarrow> string" where
  "reply_full_name (ModelEndpointMonitoringMetricValues n vs) = n"
| "reply_full_name (ModelEndpointMonitoringResultValues n vs) = n"
| "reply_full_name (ModelEndpointMonitoringMetricNoData n ty) = n"

fun is_no_data :: "'v reply \<Rightarrow> bool" where
  "is_no_data (ModelEndpointMonitoringMetricNoData n ty) = True"
| "is_no_data r = False"

text \<open>
  Modelled from the spec: what a backend stores is not in the sources. A stored record
  is one event: the endpoint it belongs to, its time (milliseconds, as an integer), the
  full name of the metric or result it reports, and its payload.
\<close>

record 'v tsdb_record =
  endpoint_id :: string
  rec_time :: int
  metric :: string
  payload :: 'v

text \<open>
  The connector: \<^verbatim>\<open>self.project\<close>, which \<^verbatim>\<open>__init__\<close> sets, and the backend's tables
  (modelled from the spec: a table is present or not, and holds records in the order
  they were written).
\<close>

record 'v TSDBConnector =
  project :: string
  tables :: "string \<rightharpoonup> 'v tsdb_record list"

definition TSDBConnector_init :: "string \<Rightarrow> 'v TSDBConnector" where
  "TSDBConnector_init p = \<lparr>project = p, tables = Map.empty\<rparr>"

subsection \<open>Operations\<close>

text \<open>
  Modelled from the spec: \<^verbatim>\<open>create_tables\<close> has an empty body in the base class. Its
  docstring names the three tables; the spec has it provision each of them if absent.
\<close>

definition create_tables :: "'v TSDBConnector \<Rightarrow> 'v TSDBConnector" where
  "create_tables c =
     c\<lparr>tables :=
         fold (\<lambda>tn m. case m tn of None \<Rightarrow> m(tn \<mapsto> []) | Some rs \<Rightarrow> m)
           [''app_results'', ''metrics'', ''predictions''] (tables c)\<rparr>"

text \<open>
  The parameter \<^verbatim>\<open>kind\<close> of \<^verbatim>\<open>write_application_event\<close> as the source declares it:
  \<^verbatim>\<open>kind: mm_schemas.WriterEventKind = mm_schemas.WriterEventKind.RESULT\<close>. A call without
  the argument binds the default.
\<close>

definition write_application_event_kind :: "WriterEventKind option \<Rightarrow> WriterEventKind" where
  "write_application_event_kind kind = (case kind of None \<Rightarrow> RESULT | Some k \<Rightarrow> k)"

text \<open>The table that holds the events of a kind (the class docstring's two tables).\<close>

fun kind_table :: "WriterEventKind \<Rightarrow> string" where
  "kind_table METRIC = ''metrics''"
| "kind_table RESULT = ''app_results''"

text \<open>
  Modelled from the spec: \<^verbatim>\<open>write_application_event\<close> has an empty body in the base
  class. The write persists the event in the table of its kind, and fails with the
  runtime error when it cannot complete (here: the table is not there).
\<close>

definition write_application_event ::
    "'v TSDBConnector \<Rightarrow> 'v tsdb_record \<Rightarrow> WriterEventKind option
       \<Rightarrow> mlrun_error + 'v TSDBConnector" where
  "write_application_event c event kind =
     (let tn = kind_table (write_application_event_kind kind)
      in case tables c tn of
           None \<Rightarrow> Inl MLRunRuntimeError
         | Some rs \<Rightarrow> Inr (c\<lparr>tables := (tables c)(tn \<mapsto> rs @ [event])\<rparr>))"

text \<open>
  A table's records (none when the table is not there), and those of one endpoint in a
  closed time range.
\<close>

definition table_records :: "'v TSDBConnector \<Rightarrow> string \<Rightarrow> 'v tsdb_record list" where
  "table_records c tn = (case tables c tn of None \<Rightarrow> [] | Some rs \<Rightarrow> rs)"

definition in_range :: "string \<Rightarrow> int \<Rightarrow> int \<Rightarrow> 'v tsdb_record \<Rightarrow> bool" where
  "in_range ep start end_t r \<longleftrightarrow> endpoint_id r = ep \<and> start \<le> rec_time r \<and> rec_time r \<le> end_t"

text \<open>
  The result of \<^verbatim>\<open>get_records\<close> is a data frame: rows of named cells. The cells of a
  record, and the restriction of a row to the optional column subset.
\<close>

datatype 'v cell = CStr string | CTime int | CVal 'v

definition record_cells :: "'v tsdb_record \<Rightarrow> (string \<times> 'v cell) list" where
  "record_cells r =
     [(''endpoint_id'', CStr (endpoint_id r)), (''time'', CTime (rec_time r)),
      (''name'', CStr (metric r)), (''value'', CVal (payload r))]"

definition select_columns ::
    "string list option \<Rightarrow> (string \<times> 'v cell) list \<Rightarrow> (string \<times> 'v cell) list" where
  "select_columns cols cells =
     (case cols of
        None \<Rightarrow> cells
      | Some cs \<Rightarrow> filter (\<lambda>(k, v). k \<in> set cs) cells)"

text \<open>
  Modelled from the spec: \<^verbatim>\<open>get_records\<close> is abstract. It returns the records of one
  table in the time range, restricted to the optional column subset and the optional
  filter expression, and fails with the not-found error if the table does not exist.
  The grammar of \<^verbatim>\<open>filter_query\<close> depends on the
  backend, so its meaning is a parameter (\<open>filter_ok\<close>); the time bounds are taken as
  resolved timestamps.
\<close>

definition get_records ::
    "(string \<Rightarrow> 'v tsdb_record \<Rightarrow> bool) \<Rightarrow> 'v TSDBConnector \<Rightarrow> string \<Rightarrow> int \<Rightarrow> int
       \<Rightarrow> string list option \<Rightarrow> string \<Rightarrow> mlrun_error + (string \<times> 'v cell) list list" where
  "get_records filter_ok c table start end_t cols filter_query =
     (case tables c table of
        None \<Rightarrow> Inl MLRunNotFoundError
      | Some rs \<Rightarrow>
          Inr (map (\<lambda>r. select_columns cols (record_cells r))
                 (filter (\<lambda>r. start \<le> rec_time r \<and> rec_time r \<le> end_t
                            \<and> (filter_query = [] \<or> filter_ok filter_query r)) rs)))"

text \<open>
  The table \<^verbatim>\<open>type\<close> selects, the records that match a descriptor (those of the endpoint
  in the time range that report the descriptor's full name), and the value series of
  records.
\<close>

fun type_table :: "metrics_or_results \<Rightarrow> string" where
  "type_table TYPE_metrics = ''metrics''"
| "type_table TYPE_results = ''app_results''"

definition matching ::
    "'v TSDBConnector \<Rightarrow> string \<Rightarrow> string \<Rightarrow> int \<Rightarrow> int \<Rightarrow> string \<Rightarrow> 'v tsdb_record list" where
  "matching c tn ep start end_t n =
     filter (\<lambda>r. in_range ep start end_t r \<and> metric r = n) (table_records c tn)"

definition series :: "'v tsdb_record list \<Rightarrow> (int \<times> 'v) list" where
  "series rs = map (\<lambda>r. (rec_time r, payload r)) rs"

text \<open>
  Modelled from the spec: \<^verbatim>\<open>read_metrics_data\<close> is abstract. For a fixed endpoint and
  time range it resolves each requested descriptor to its full value series or to the
  no-data marker; \<^verbatim>\<open>type\<close> selects the table and the shape of the values. The
  resolution of one descriptor comes first, then the operation, which resolves the
  descriptors in input order.
\<close>

definition read_metric ::
    "'v TSDBConnector \<Rightarrow> string \<Rightarrow> int \<Rightarrow> int \<Rightarrow> metrics_or_results
       \<Rightarrow> ModelEndpointMonitoringMetric \<Rightarrow> 'v reply" where
  "read_metric c ep start end_t ty m =
     (let rs = matching c (type_table ty) ep start end_t (full_name m)
      in if rs = [] then ModelEndpointMonitoringMetricNoData (full_name m) ty
         else (case ty of
                 TYPE_metrics \<Rightarrow> ModelEndpointMonitoringMetricValues (full_name m) (series rs)
               | TYPE_results \<Rightarrow> ModelEndpointMonitoringResultValues (full_name m) (series rs)))"

definition read_metrics_data ::
    "'v TSDBConnector \<Rightarrow> string \<Rightarrow> int \<Rightarrow> int \<Rightarrow> ModelEndpointMonitoringMetric list
       \<Rightarrow> metrics_or_results \<Rightarrow> 'v reply list" where
  "read_metrics_data c ep start end_t metrics ty = map (read_metric c ep start end_t ty) metrics"

text \<open>
  Modelled from the spec: \<^verbatim>\<open>read_predictions\<close> is abstract. It returns the
  \<^verbatim>\<open>invocations\<close> series of the endpoint in the time range, aggregated into windows when
  \<^verbatim>\<open>aggregation_window\<close> is given, and the no-data marker when the endpoint has no
  recorded invocation in the range. How a backend aggregates is a parameter
  (\<open>aggregate\<close>).
\<close>

definition read_predictions ::
    "(string \<Rightarrow> (int \<times> 'v) list \<Rightarrow> (int \<times> 'v) list) \<Rightarrow> 'v TSDBConnector \<Rightarrow> string \<Rightarrow> int \<Rightarrow> int
       \<Rightarrow> string option \<Rightarrow> 'v reply" where
  "read_predictions aggregate c ep start end_t aggregation_window =
     (let rs = filter (in_range ep start end_t) (table_records c ''predictions'')
      in if rs = [] then ModelEndpointMonitoringMetricNoData ''invocations'' TYPE_metrics
         else ModelEndpointMonitoringMetricValues ''invocations''
                (case aggregation_window of
                   None \<Rightarrow> series rs
                 | Some w \<Rightarrow> aggregate w (series rs)))"

text \<open>
  Modelled from the spec: \<^verbatim>\<open>read_prediction_metric_for_endpoint_if_exists\<close> is abstract.
  Its declared return type is \<^verbatim>\<open>typing.Optional[mm_schemas.ModelEndpointMonitoringMetric]\<close>
  and its docstring reads: \<^verbatim>\<open>None\<close> if the invocations metric does not exist, otherwise
  the corresponding metric object. It takes no time range.
\<close>

definition read_prediction_metric_for_endpoint_if_exists ::
    "'v TSDBConnector \<Rightarrow> string \<Rightarrow> ModelEndpointMonitoringMetric option" where
  "read_prediction_metric_for_endpoint_if_exists c ep =
     (if list_ex (\<lambda>r. endpoint_id r = ep) (table_records c ''predictions'')
      then Some \<lparr>full_name = ''invocations''\<rparr>
      else None)"

section \<open>Properties of the migration\<close>

lemma upgrade_Inr:
  "upgrade db0 = Inr db1 \<longleftrightarrow>
     db0 ''marketplace_sources'' = None \<and>
     db1 = db0(''marketplace_sources'' \<mapsto>
       \<lparr>tdef = \<lparr>columns =
         [\<lparr>col_name = ''id'', col_type = SA_Integer, nullable = False\<rparr>,
          \<lparr>col_name = ''name'', col_type = SA_String, nullable = True\<rparr>,
          \<lparr>col_name = ''index'', col_type = SA_Integer, nullable = True\<rparr>,
          \<lparr>col_name = ''created'', col_type = SA_TIMESTAMP, nullable = True\<rparr>,
          \<lparr>col_name = ''updated'', col_type = SA_TIMESTAMP, nullable = True\<rparr>,
          \<lparr>col_name = ''object'', col_type = SA_JSON, nullable = True\<rparr>],
        constraints =
         [PrimaryKeyConstraint [''id''],
          UniqueConstraint [''name''] (Some ''_marketplace_sources_uc'')]\<rparr>,
        trows = []\<rparr>)"
  by (auto simp: upgrade_def create_table_def split: option.splits)

lemma present_names_append:
  "present_names (rs @ [r]) =
     present_names rs @ (case r ''name'' of None \<Rightarrow> [] | Some n \<Rightarrow> [n])"
  by (simp add: present_names_def names_of_def List.map_filter_def split: option.splits)

lemma present_names_set: "n \<in> set (present_names rs) \<longleftrightarrow> Some n \<in> set (names_of rs)"
  by (induction rs) (auto simp: present_names_def names_of_def List.map_filter_def)

lemma rowids_set: "i \<in> set (rowids c rs) \<longleftrightarrow> Some (SqlInt i) \<in> set (map (\<lambda>r. r c) rs)"
  by (induction rs)
     (auto simp: rowids_def List.map_filter_def split: option.splits sql_value.splits)

lemma rowids_append:
  "rowids c (rs @ [r]) =
     rowids c rs @ (case r c of Some (SqlInt i) \<Rightarrow> [i] | _ \<Rightarrow> [])"
  by (simp add: rowids_def List.map_filter_def split: option.splits sql_value.splits)

lemma no_conflict_single:
  "no_conflict [c] rs r \<longleftrightarrow> r c = None \<or> r c \<notin> set (map (\<lambda>r'. r' c) rs)"
  by (induction rs) (auto simp: no_conflict_def)

lemma insert_row_Inr:
  "insert_row eng tn r db = Inr db' \<longleftrightarrow>
     (\<exists>t s. db tn = Some t
        \<and> with_rowid eng (tdef t) (trows t) (stored_form eng (tdef t) r) = Some s
        \<and> not_null_ok (tdef t) s
        \<and> list_all (\<lambda>c. constraint_ok c (trows t) s) (constraints (tdef t))
        \<and> db' = db(tn \<mapsto> t\<lparr>trows := trows t @ [s]\<rparr>))"
  by (auto simp: insert_row_def split: option.splits)

lemma insert_row_Inl:
  "db tn = Some t \<Longrightarrow> insert_row eng tn r db = Inl e \<Longrightarrow> e = IntegrityError"
  by (auto simp: insert_row_def split: option.splits if_splits)

lemma insert_rows_table:
  "db tn = Some t \<Longrightarrow>
     \<exists>t'. insert_rows eng tn rs db = db(tn \<mapsto> t') \<and> tdef t' = tdef t"
proof (induction rs arbitrary: db t)
  case Nil
  then have "db(tn \<mapsto> t) = db" by (simp add: fun_upd_idem)
  then have "insert_rows eng tn [] db = db(tn \<mapsto> t) \<and> tdef t = tdef t" by simp
  then show ?case by blast
next
  case (Cons r rs)
  show ?case
  proof (cases "insert_row eng tn r db")
    case (Inl e)
    with Cons show ?thesis by simp
  next
    case (Inr db')
    with Cons.prems obtain s where db': "db' = db(tn \<mapsto> t\<lparr>trows := trows t @ [s]\<rparr>)"
      by (auto simp: insert_row_Inr)
    then have "db' tn = Some (t\<lparr>trows := trows t @ [s]\<rparr>)" by simp
    from Cons.IH [of db' "t\<lparr>trows := trows t @ [s]\<rparr>", OF this] obtain t' where
      t': "insert_rows eng tn rs db' = db'(tn \<mapsto> t')" "tdef t' = tdef t" by force
    from Inr t'(1) db' have "insert_rows eng tn (r # rs) db = db(tn \<mapsto> t')" by simp
    with t'(2) show ?thesis by blast
  qed
qed

lemma largest_rowid_fold:
  "fold (\<lambda>j m. if sint m < sint j then j else m) ids i \<in> set (i # ids)
   \<and> (\<forall>j\<in>set (i # ids). sint j \<le> sint (fold (\<lambda>j m. if sint m < sint j then j else m) ids i))"
proof (induction ids arbitrary: i)
  case Nil
  show ?case by simp
next
  case (Cons k ids)
  show ?case
  proof (cases "sint i < sint k")
    case True
    with Cons [of k] show ?thesis by auto
  next
    case False
    with Cons [of i] show ?thesis by auto
  qed
qed

lemma largest_rowid_Some:
  "largest_rowid ids = Some m \<Longrightarrow> m \<in> set ids \<and> (\<forall>j\<in>set ids. sint j \<le> sint m)"
  using largest_rowid_fold by (cases ids) auto

lemma sint_succ:
  fixes m :: "64 word"
  assumes "sint m < 9223372036854775807"
  shows "sint (m + 1) = sint m + 1"
proof -
  have lo: "- (2 ^ 63) \<le> sint m" using sint_ge [of m] by simp
  have "sint (m + 1) = signed_take_bit 63 (sint m + 1)"
    by (simp add: sint_word_ariths)
  also have "\<dots> = sint m + 1"
    using assms lo by (simp add: signed_take_bit_int_eq_self)
  finally show ?thesis .
qed

lemma new_rowid_fresh:
  assumes "\<forall>j\<in>set ids. sint j < 9223372036854775807"
  shows "new_rowid eng ids \<notin> set ids"
proof (cases "largest_rowid ids")
  case None
  then have "ids = []" by (cases ids) simp_all
  then show ?thesis by simp
next
  case (Some m)
  from largest_rowid_Some [OF Some] have m: "m \<in> set ids" and le: "\<forall>j\<in>set ids. sint j \<le> sint m"
    by simp_all
  from m assms have small: "sint m < 9223372036854775807" by blast
  then have new: "new_rowid eng ids = m + 1" using Some by (simp add: new_rowid_def)
  show ?thesis
  proof
    assume "new_rowid eng ids \<in> set ids"
    with le new have "sint (m + 1) \<le> sint m" by simp
    with sint_succ [OF small] show False by simp
  qed
qed

lemma decl_rowid:
  assumes "columns d = [\<lparr>col_name = ''id'', col_type = SA_Integer, nullable = False\<rparr>,
          \<lparr>col_name = ''name'', col_type = SA_String, nullable = True\<rparr>,
          \<lparr>col_name = ''index'', col_type = SA_Integer, nullable = True\<rparr>,
          \<lparr>col_name = ''created'', col_type = SA_TIMESTAMP, nullable = True\<rparr>,
          \<lparr>col_name = ''updated'', col_type = SA_TIMESTAMP, nullable = True\<rparr>,
          \<lparr>col_name = ''object'', col_type = SA_JSON, nullable = True\<rparr>]"
    and "constraints d = [PrimaryKeyConstraint [''id''],
          UniqueConstraint [''name''] (Some ''_marketplace_sources_uc'')]"
  shows "integer_primary_key d (constraints d) = Some ''id''"
  using assms by (simp add: column_types_def)

lemma decl_stored_id:
  assumes "columns d = [\<lparr>col_name = ''id'', col_type = SA_Integer, nullable = False\<rparr>,
          \<lparr>col_name = ''name'', col_type = SA_String, nullable = True\<rparr>,
          \<lparr>col_name = ''index'', col_type = SA_Integer, nullable = True\<rparr>,
          \<lparr>col_name = ''created'', col_type = SA_TIMESTAMP, nullable = True\<rparr>,
          \<lparr>col_name = ''updated'', col_type = SA_TIMESTAMP, nullable = True\<rparr>,
          \<lparr>col_name = ''object'', col_type = SA_JSON, nullable = True\<rparr>]"
  shows "stored_form eng d r ''id'' = map_option (apply_affinity eng AFF_INTEGER) (r ''id'')"
  using assms by (simp add: stored_form_def column_types_def)

lemma decl_stored_name:
  assumes "columns d = [\<lparr>col_name = ''id'', col_type = SA_Integer, nullable = False\<rparr>,
          \<lparr>col_name = ''name'', col_type = SA_String, nullable = True\<rparr>,
          \<lparr>col_name = ''index'', col_type = SA_Integer, nullable = True\<rparr>,
          \<lparr>col_name = ''created'', col_type = SA_TIMESTAMP, nullable = True\<rparr>,
          \<lparr>col_name = ''updated'', col_type = SA_TIMESTAMP, nullable = True\<rparr>,
          \<lparr>col_name = ''object'', col_type = SA_JSON, nullable = True\<rparr>]"
  shows "stored_form eng d r ''name'' = map_option (apply_affinity eng AFF_TEXT) (r ''name'')"
  using assms by (simp add: stored_form_def column_types_def)

lemma decl_not_null:
  assumes "columns d = [\<lparr>col_name = ''id'', col_type = SA_Integer, nullable = False\<rparr>,
          \<lparr>col_name = ''name'', col_type = SA_String, nullable = True\<rparr>,
          \<lparr>col_name = ''index'', col_type = SA_Integer, nullable = True\<rparr>,
          \<lparr>col_name = ''created'', col_type = SA_TIMESTAMP, nullable = True\<rparr>,
          \<lparr>col_name = ''updated'', col_type = SA_TIMESTAMP, nullable = True\<rparr>,
          \<lparr>col_name = ''object'', col_type = SA_JSON, nullable = True\<rparr>]"
  shows "not_null_ok d s \<longleftrightarrow> s ''id'' \<noteq> None"
  using assms by (simp add: not_null_ok_def)

lemma with_rowid_given:
  assumes rowid: "integer_primary_key d (constraints d) = Some c"
    and stored: "s c = map_option (apply_affinity eng AFF_INTEGER) v"
  shows "with_rowid eng d rs s =
           map_option (\<lambda>i. s(c \<mapsto> SqlInt i)) (given_rowid eng (rowids c rs) v)"
proof (cases v)
  case None
  with stored have "s c = None" by simp
  with rowid None show ?thesis by (simp add: with_rowid_def given_rowid_def)
next
  case (Some w)
  show ?thesis
  proof (cases w)
    case (SqlInt i)
    with Some stored have sc: "s c = Some (SqlInt i)" by simp
    then have "s(c \<mapsto> SqlInt i) = s" by (simp add: fun_upd_idem)
    with rowid Some SqlInt sc show ?thesis by (simp add: with_rowid_def given_rowid_def)
  next
    case (SqlStr x)
    show ?thesis
    proof (cases "text_integer eng x")
      case None
      with Some SqlStr stored have "s c = Some (SqlStr x)" by simp
      with rowid Some SqlStr None show ?thesis by (simp add: with_rowid_def given_rowid_def)
    next
      case (Some i)
      with \<open>v = Some w\<close> SqlStr stored have sc: "s c = Some (SqlInt i)" by simp
      then have "s(c \<mapsto> SqlInt i) = s" by (simp add: fun_upd_idem)
      with rowid \<open>v = Some w\<close> SqlStr Some sc show ?thesis
        by (simp add: with_rowid_def given_rowid_def)
    qed
  qed
qed

lemma insert_marketplace_sources:
  assumes t: "db tn = Some t"
    and cols: "columns (tdef t) = [\<lparr>col_name = ''id'', col_type = SA_Integer, nullable = False\<rparr>,
          \<lparr>col_name = ''name'', col_type = SA_String, nullable = True\<rparr>,
          \<lparr>col_name = ''index'', col_type = SA_Integer, nullable = True\<rparr>,
          \<lparr>col_name = ''created'', col_type = SA_TIMESTAMP, nullable = True\<rparr>,
          \<lparr>col_name = ''updated'', col_type = SA_TIMESTAMP, nullable = True\<rparr>,
          \<lparr>col_name = ''object'', col_type = SA_JSON, nullable = True\<rparr>]"
    and cons: "constraints (tdef t) = [PrimaryKeyConstraint [''id''],
          UniqueConstraint [''name''] (Some ''_marketplace_sources_uc'')]"
  shows "insert_row eng tn r db = Inr db' \<longleftrightarrow>
     (\<exists>i. given_rowid eng (rowids ''id'' (trows t)) (r ''id'') = Some i
        \<and> i \<notin> set (rowids ''id'' (trows t))
        \<and> (r ''name'' = None
            \<or> map_option (apply_affinity eng AFF_TEXT) (r ''name'') \<notin> set (names_of (trows t)))
        \<and> db' = db(tn \<mapsto> t\<lparr>trows := trows t @
                   [(stored_form eng (tdef t) r)(''id'' \<mapsto> SqlInt i)]\<rparr>))"
proof -
  let ?s = "stored_form eng (tdef t) r"
  let ?ids = "rowids ''id'' (trows t)"
  have wr: "with_rowid eng (tdef t) (trows t) ?s =
      map_option (\<lambda>i. ?s(''id'' \<mapsto> SqlInt i)) (given_rowid eng ?ids (r ''id''))"
    by (rule with_rowid_given
          [of "tdef t" "''id''" ?s eng "r ''id''" "trows t",
           OF decl_rowid [OF cols cons] decl_stored_id [OF cols, of eng r]])
  have ok: "not_null_ok (tdef t) (?s(''id'' \<mapsto> SqlInt i))
      \<and> list_all (\<lambda>c. constraint_ok c (trows t) (?s(''id'' \<mapsto> SqlInt i))) (constraints (tdef t))
    \<longleftrightarrow> i \<notin> set ?ids
      \<and> (r ''name'' = None
          \<or> map_option (apply_affinity eng AFF_TEXT) (r ''name'') \<notin> set (names_of (trows t)))"
    for i
  proof -
    have nn: "not_null_ok (tdef t) (?s(''id'' \<mapsto> SqlInt i))"
      by (simp add: decl_not_null [OF cols])
    have pk: "no_conflict [''id''] (trows t) (?s(''id'' \<mapsto> SqlInt i)) \<longleftrightarrow> i \<notin> set ?ids"
      by (simp add: no_conflict_single rowids_set)
    have nm: "(?s(''id'' \<mapsto> SqlInt i)) ''name''
        = map_option (apply_affinity eng AFF_TEXT) (r ''name'')"
      by (simp add: decl_stored_name [OF cols])
    have uc: "no_conflict [''name''] (trows t) (?s(''id'' \<mapsto> SqlInt i)) \<longleftrightarrow>
        r ''name'' = None
        \<or> map_option (apply_affinity eng AFF_TEXT) (r ''name'') \<notin> set (names_of (trows t))"
      unfolding no_conflict_single nm by (simp add: names_of_def)
    show ?thesis
      unfolding cons using nn pk uc by simp
  qed
  show ?thesis
  proof
    assume "insert_row eng tn r db = Inr db'"
    with t obtain s where s: "with_rowid eng (tdef t) (trows t) ?s = Some s"
      and ns: "not_null_ok (tdef t) s
        \<and> list_all (\<lambda>c. constraint_ok c (trows t) s) (constraints (tdef t))"
      and db': "db' = db(tn \<mapsto> t\<lparr>trows := trows t @ [s]\<rparr>)"
      by (auto simp: insert_row_Inr)
    from s wr obtain i where i: "given_rowid eng ?ids (r ''id'') = Some i"
      and si: "s = ?s(''id'' \<mapsto> SqlInt i)" by auto
    from ns ok [of i] have "i \<notin> set ?ids
      \<and> (r ''name'' = None
          \<or> map_option (apply_affinity eng AFF_TEXT) (r ''name'') \<notin> set (names_of (trows t)))"
      unfolding si by blast
    with i db' si show "\<exists>i. given_rowid eng ?ids (r ''id'') = Some i
        \<and> i \<notin> set ?ids
        \<and> (r ''name'' = None
            \<or> map_option (apply_affinity eng AFF_TEXT) (r ''name'') \<notin> set (names_of (trows t)))
        \<and> db' = db(tn \<mapsto> t\<lparr>trows := trows t @ [?s(''id'' \<mapsto> SqlInt i)]\<rparr>)"
      by blast
  next
    assume "\<exists>i. given_rowid eng ?ids (r ''id'') = Some i
        \<and> i \<notin> set ?ids
        \<and> (r ''name'' = None
            \<or> map_option (apply_affinity eng AFF_TEXT) (r ''name'') \<notin> set (names_of (trows t)))
        \<and> db' = db(tn \<mapsto> t\<lparr>trows := trows t @ [?s(''id'' \<mapsto> SqlInt i)]\<rparr>)"
    then obtain i where i: "given_rowid eng ?ids (r ''id'') = Some i"
      and fresh: "i \<notin> set ?ids
        \<and> (r ''name'' = None
            \<or> map_option (apply_affinity eng AFF_TEXT) (r ''name'') \<notin> set (names_of (trows t)))"
      and db': "db' = db(tn \<mapsto> t\<lparr>trows := trows t @ [?s(''id'' \<mapsto> SqlInt i)]\<rparr>)"
      by blast
    from i wr have "with_rowid eng (tdef t) (trows t) ?s = Some (?s(''id'' \<mapsto> SqlInt i))"
      by simp
    moreover from fresh ok [of i] have "not_null_ok (tdef t) (?s(''id'' \<mapsto> SqlInt i))
      \<and> list_all (\<lambda>c. constraint_ok c (trows t) (?s(''id'' \<mapsto> SqlInt i)))
            (constraints (tdef t))" by blast
    ultimately show "insert_row eng tn r db = Inr db'"
      using t db' unfolding insert_row_Inr by blast
  qed
qed

lemma text_affinity: "\<exists>x. apply_affinity eng AFF_TEXT v = SqlStr x"
  by (cases v) simp_all

lemma insert_keeps_invariant:
  assumes t: "db tn = Some t"
    and cols: "columns (tdef t) = [\<lparr>col_name = ''id'', col_type = SA_Integer, nullable = False\<rparr>,
          \<lparr>col_name = ''name'', col_type = SA_String, nullable = True\<rparr>,
          \<lparr>col_name = ''index'', col_type = SA_Integer, nullable = True\<rparr>,
          \<lparr>col_name = ''created'', col_type = SA_TIMESTAMP, nullable = True\<rparr>,
          \<lparr>col_name = ''updated'', col_type = SA_TIMESTAMP, nullable = True\<rparr>,
          \<lparr>col_name = ''object'', col_type = SA_JSON, nullable = True\<rparr>]"
    and cons: "constraints (tdef t) = [PrimaryKeyConstraint [''id''],
          UniqueConstraint [''name''] (Some ''_marketplace_sources_uc'')]"
    and ids: "\<forall>s\<in>set (trows t). \<exists>i. s ''id'' = Some (SqlInt i)"
    and texts: "\<forall>s\<in>set (trows t). \<forall>v. s ''name'' = Some v \<longrightarrow> (\<exists>x. v = SqlStr x)"
    and dist: "distinct (present_names (trows t))"
    and ins: "insert_row eng tn r db = Inr db'"
  shows "\<exists>t'. db' tn = Some t' \<and> tdef t' = tdef t
           \<and> (\<forall>s\<in>set (trows t'). \<exists>i. s ''id'' = Some (SqlInt i))
           \<and> (\<forall>s\<in>set (trows t'). \<forall>v. s ''name'' = Some v \<longrightarrow> (\<exists>x. v = SqlStr x))
           \<and> distinct (present_names (trows t'))"
proof -
  let ?s = "stored_form eng (tdef t) r"
  from ins insert_marketplace_sources
    [where db=db and tn=tn and t=t and eng=eng and r=r and db'=db', OF t cols cons] obtain i where
    fresh: "r ''name'' = None
        \<or> map_option (apply_affinity eng AFF_TEXT) (r ''name'') \<notin> set (names_of (trows t))"
    and db': "db' = db(tn \<mapsto> t\<lparr>trows := trows t @ [?s(''id'' \<mapsto> SqlInt i)]\<rparr>)"
    by blast
  let ?n = "?s(''id'' \<mapsto> SqlInt i)"
  have nm: "?n ''name'' = map_option (apply_affinity eng AFF_TEXT) (r ''name'')"
    by (simp add: decl_stored_name [OF cols])
  have a: "\<forall>s\<in>set (trows t @ [?n]). \<exists>i. s ''id'' = Some (SqlInt i)"
    using ids by simp
  have b: "\<forall>s\<in>set (trows t @ [?n]). \<forall>v. s ''name'' = Some v \<longrightarrow> (\<exists>x. v = SqlStr x)"
  proof -
    have "\<forall>v. ?n ''name'' = Some v \<longrightarrow> (\<exists>x. v = SqlStr x)"
      unfolding nm using text_affinity [of eng] by (cases "r ''name''") auto
    with texts show ?thesis by simp
  qed
  have c: "distinct (present_names (trows t @ [?n]))"
  proof (cases "r ''name''")
    case None
    with nm have "?n ''name'' = None" by simp
    with dist show ?thesis by (simp add: present_names_append)
  next
    case (Some v)
    with nm have n: "?n ''name'' = Some (apply_affinity eng AFF_TEXT v)" by simp
    from Some fresh have "Some (apply_affinity eng AFF_TEXT v) \<notin> set (names_of (trows t))"
      by simp
    then have "apply_affinity eng AFF_TEXT v \<notin> set (present_names (trows t))"
      by (simp add: present_names_set)
    with dist n show ?thesis by (simp add: present_names_append)
  qed
  have "db' tn = Some (t\<lparr>trows := trows t @ [?n]\<rparr>)" by (simp add: db')
  moreover have "tdef (t\<lparr>trows := trows t @ [?n]\<rparr>) = tdef t" by simp
  moreover have "trows (t\<lparr>trows := trows t @ [?n]\<rparr>) = trows t @ [?n]" by simp
  ultimately show ?thesis using a b c by metis
qed

lemma inserts_keep_invariant:
  "db tn = Some t \<Longrightarrow>
   columns (tdef t) = [\<lparr>col_name = ''id'', col_type = SA_Integer, nullable = False\<rparr>,
          \<lparr>col_name = ''name'', col_type = SA_String, nullable = True\<rparr>,
          \<lparr>col_name = ''index'', col_type = SA_Integer, nullable = True\<rparr>,
          \<lparr>col_name = ''created'', col_type = SA_TIMESTAMP, nullable = True\<rparr>,
          \<lparr>col_name = ''updated'', col_type = SA_TIMESTAMP, nullable = True\<rparr>,
          \<lparr>col_name = ''object'', col_type = SA_JSON, nullable = True\<rparr>] \<Longrightarrow>
   constraints (tdef t) = [PrimaryKeyConstraint [''id''],
          UniqueConstraint [''name''] (Some ''_marketplace_sources_uc'')] \<Longrightarrow>
   \<forall>s\<in>set (trows t). \<exists>i. s ''id'' = Some (SqlInt i) \<Longrightarrow>
   \<forall>s\<in>set (trows t). \<forall>v. s ''name'' = Some v \<longrightarrow> (\<exists>x. v = SqlStr x) \<Longrightarrow>
   distinct (present_names (trows t)) \<Longrightarrow>
     \<exists>t'. insert_rows eng tn rs db tn = Some t' \<and> tdef t' = tdef t
           \<and> (\<forall>s\<in>set (trows t'). \<exists>i. s ''id'' = Some (SqlInt i))
           \<and> (\<forall>s\<in>set (trows t'). \<forall>v. s ''name'' = Some v \<longrightarrow> (\<exists>x. v = SqlStr x))
           \<and> distinct (present_names (trows t'))"
proof (induction rs arbitrary: db t)
  case Nil
  then show ?case by simp
next
  case (Cons r rs)
  show ?case
  proof (cases "insert_row eng tn r db")
    case (Inl e)
    with Cons.IH [of db t, OF Cons.prems] show ?thesis by simp
  next
    case (Inr db')
    from insert_keeps_invariant [where db=db and tn=tn and t=t, OF Cons.prems Inr] obtain t1 where
      t1: "db' tn = Some t1" and d1: "tdef t1 = tdef t"
      and i1: "\<forall>s\<in>set (trows t1). \<exists>i. s ''id'' = Some (SqlInt i)"
      and n1: "\<forall>s\<in>set (trows t1). \<forall>v. s ''name'' = Some v \<longrightarrow> (\<exists>x. v = SqlStr x)"
      and x1: "distinct (present_names (trows t1))" by blast
    from d1 Cons.prems(2) have c1: "columns (tdef t1) = [\<lparr>col_name = ''id'', col_type = SA_Integer, nullable = False\<rparr>,
          \<lparr>col_name = ''name'', col_type = SA_String, nullable = True\<rparr>,
          \<lparr>col_name = ''index'', col_type = SA_Integer, nullable = True\<rparr>,
          \<lparr>col_name = ''created'', col_type = SA_TIMESTAMP, nullable = True\<rparr>,
          \<lparr>col_name = ''updated'', col_type = SA_TIMESTAMP, nullable = True\<rparr>,
          \<lparr>col_name = ''object'', col_type = SA_JSON, nullable = True\<rparr>]" by simp
    from d1 Cons.prems(3) have k1: "constraints (tdef t1) = [PrimaryKeyConstraint [''id''],
          UniqueConstraint [''name''] (Some ''_marketplace_sources_uc'')]" by simp
    from Cons.IH [of db' t1, OF t1 c1 k1 i1 n1 x1] d1 Inr show ?thesis by simp
  qed
qed

lemma upgrade_then_inserts:
  assumes "upgrade db0 = Inr db1"
  shows "\<exists>t. insert_rows eng ''marketplace_sources'' rs db1 ''marketplace_sources'' = Some t
           \<and> columns (tdef t) = [\<lparr>col_name = ''id'', col_type = SA_Integer, nullable = False\<rparr>,
          \<lparr>col_name = ''name'', col_type = SA_String, nullable = True\<rparr>,
          \<lparr>col_name = ''index'', col_type = SA_Integer, nullable = True\<rparr>,
          \<lparr>col_name = ''created'', col_type = SA_TIMESTAMP, nullable = True\<rparr>,
          \<lparr>col_name = ''updated'', col_type = SA_TIMESTAMP, nullable = True\<rparr>,
          \<lparr>col_name = ''object'', col_type = SA_JSON, nullable = True\<rparr>]
           \<and> constraints (tdef t) = [PrimaryKeyConstraint [''id''],
          UniqueConstraint [''name''] (Some ''_marketplace_sources_uc'')]
           \<and> (\<forall>s\<in>set (trows t). \<exists>i. s ''id'' = Some (SqlInt i))
           \<and> (\<forall>s\<in>set (trows t). \<forall>v. s ''name'' = Some v \<longrightarrow> (\<exists>x. v = SqlStr x))
           \<and> distinct (present_names (trows t))"
proof -
  define t0 where "t0 = \<lparr>tdef = \<lparr>columns =
         [\<lparr>col_name = ''id'', col_type = SA_Integer, nullable = False\<rparr>,
          \<lparr>col_name = ''name'', col_type = SA_String, nullable = True\<rparr>,
          \<lparr>col_name = ''index'', col_type = SA_Integer, nullable = True\<rparr>,
          \<lparr>col_name = ''created'', col_type = SA_TIMESTAMP, nullable = True\<rparr>,
          \<lparr>col_name = ''updated'', col_type = SA_TIMESTAMP, nullable = True\<rparr>,
          \<lparr>col_name = ''object'', col_type = SA_JSON, nullable = True\<rparr>],
        constraints =
         [PrimaryKeyConstraint [''id''],
          UniqueConstraint [''name''] (Some ''_marketplace_sources_uc'')]\<rparr>,
        trows = []\<rparr>"
  from assms have "db1 = db0(''marketplace_sources'' \<mapsto> t0)"
    unfolding t0_def by (simp add: upgrade_Inr)
  then have t0: "db1 ''marketplace_sources'' = Some t0" by simp
  have cols: "columns (tdef t0) = [\<lparr>col_name = ''id'', col_type = SA_Integer, nullable = False\<rparr>,
          \<lparr>col_name = ''name'', col_type = SA_String, nullable = True\<rparr>,
          \<lparr>col_name = ''index'', col_type = SA_Integer, nullable = True\<rparr>,
          \<lparr>col_name = ''created'', col_type = SA_TIMESTAMP, nullable = True\<rparr>,
          \<lparr>col_name = ''updated'', col_type = SA_TIMESTAMP, nullable = True\<rparr>,
          \<lparr>col_name = ''object'', col_type = SA_JSON, nullable = True\<rparr>]"
    and cons: "constraints (tdef t0) = [PrimaryKeyConstraint [''id''],
          UniqueConstraint [''name''] (Some ''_marketplace_sources_uc'')]"
    and empty: "trows t0 = []"
    by (simp_all add: t0_def)
  from empty have i0: "\<forall>s\<in>set (trows t0). \<exists>i. s ''id'' = Some (SqlInt i)"
    and n0: "\<forall>s\<in>set (trows t0). \<forall>v. s ''name'' = Some v \<longrightarrow> (\<exists>x. v = SqlStr x)"
    and x0: "distinct (present_names (trows t0))"
    by (simp_all add: present_names_def names_of_def List.map_filter_def)
  from inserts_keep_invariant [of db1 "''marketplace_sources''" t0 eng rs, OF t0 cols cons i0 n0 x0]
  obtain t where "insert_rows eng ''marketplace_sources'' rs db1 ''marketplace_sources'' = Some t" and "tdef t = tdef t0"
    and "\<forall>s\<in>set (trows t). \<exists>i. s ''id'' = Some (SqlInt i)"
    and "\<forall>s\<in>set (trows t). \<forall>v. s ''name'' = Some v \<longrightarrow> (\<exists>x. v = SqlStr x)"
    and "distinct (present_names (trows t))" by blast
  with cols cons show ?thesis by simp
qed

text \<open>The definitions a concrete insert unfolds to.\<close>

lemmas insert_eval =
  upgrade_def create_table_def insert_row_def stored_form_def column_types_def
  with_rowid_def not_null_ok_def no_conflict_def rowids_def List.map_filter_def
  new_rowid_def plain_engine_def rows_of_def names_of_def

text \<open>
  Claim C7. On a database that has no table \<^verbatim>\<open>marketplace_sources\<close>, \<^verbatim>\<open>upgrade\<close> succeeds
  and adds exactly that table, empty, and touches no other table. Its columns are, in
  order, \<^verbatim>\<open>id\<close> (integer), \<^verbatim>\<open>name\<close> (string), \<^verbatim>\<open>index\<close> (integer), \<^verbatim>\<open>created\<close> and
  \<^verbatim>\<open>updated\<close> (timestamps) and \<^verbatim>\<open>object\<close> (JSON); its constraints are the primary key
  on \<^verbatim>\<open>id\<close> and the unique constraint on \<^verbatim>\<open>name\<close>, and no others.
\<close>

theorem upgrade_creates_marketplace_sources:
  assumes "db ''marketplace_sources'' = None"
  shows "\<exists>t. upgrade db = Inr (db(''marketplace_sources'' \<mapsto> t))
           \<and> trows t = []
           \<and> map (\<lambda>c. (col_name c, col_type c)) (columns (tdef t)) =
               [(''id'', SA_Integer), (''name'', SA_String), (''index'', SA_Integer),
                (''created'', SA_TIMESTAMP), (''updated'', SA_TIMESTAMP),
                (''object'', SA_JSON)]
           \<and> constraints (tdef t) =
               [PrimaryKeyConstraint [''id''],
                UniqueConstraint [''name''] (Some ''_marketplace_sources_uc'')]"
  using assms unfolding upgrade_def create_table_def
  by simp (rule exI, rule conjI, rule refl, simp)

text \<open>Witness for C7: the empty database.\<close>

theorem upgrade_creates_marketplace_sources_witness:
  "\<exists>t. upgrade Map.empty = Inr [''marketplace_sources'' \<mapsto> t]
           \<and> trows t = []
           \<and> map (\<lambda>c. (col_name c, col_type c)) (columns (tdef t)) =
               [(''id'', SA_Integer), (''name'', SA_String), (''index'', SA_Integer),
                (''created'', SA_TIMESTAMP), (''updated'', SA_TIMESTAMP),
                (''object'', SA_JSON)]
           \<and> constraints (tdef t) =
               [PrimaryKeyConstraint [''id''],
                UniqueConstraint [''name''] (Some ''_marketplace_sources_uc'')]"
  using upgrade_creates_marketplace_sources [of Map.empty] by simp

text \<open>
  Claim C9. On a database that has no table \<^verbatim>\<open>marketplace_sources\<close>, running \<^verbatim>\<open>upgrade\<close>
  and then \<^verbatim>\<open>downgrade\<close> succeeds and gives the database back unchanged. \<^verbatim>\<open>upgrade\<close>
  adds the one table name to the database, \<^verbatim>\<open>downgrade\<close> removes exactly that one table,
  and the round trip also holds when rows were inserted into the table in between.
\<close>

theorem upgrade_downgrade_roundtrip:
  assumes "db ''marketplace_sources'' = None"
  shows "run [upgrade, downgrade] db = Inr db
       \<and> (\<exists>db'. upgrade db = Inr db'
              \<and> dom db' = insert ''marketplace_sources'' (dom db)
              \<and> downgrade db' = Inr (db'(''marketplace_sources'' := None))
              \<and> downgrade (insert_rows eng ''marketplace_sources'' rs db') = Inr db)"
proof -
  obtain db' where up: "upgrade db = Inr db'"
    using assms by (simp add: upgrade_def create_table_def)
  then obtain t where db': "db' = db(''marketplace_sources'' \<mapsto> t)"
    by (auto simp: upgrade_Inr)
  from assms have restored: "db'(''marketplace_sources'' := None) = db"
    unfolding db' by (simp add: fun_upd_idem)
  have down: "downgrade db' = Inr (db'(''marketplace_sources'' := None))"
    unfolding db' by (simp add: downgrade_def drop_table_def)
  have "db' ''marketplace_sources'' = Some t" by (simp add: db')
  with insert_rows_table [of db' "''marketplace_sources''" t eng rs] obtain t' where
    "insert_rows eng ''marketplace_sources'' rs db' = db'(''marketplace_sources'' \<mapsto> t')" by blast
  then have "insert_rows eng ''marketplace_sources'' rs db' = db(''marketplace_sources'' \<mapsto> t')"
    by (simp add: db')
  with assms have rows: "downgrade (insert_rows eng ''marketplace_sources'' rs db') = Inr db"
    by (simp add: downgrade_def drop_table_def fun_upd_idem)
  have "dom db' = insert ''marketplace_sources'' (dom db)" by (simp add: db')
  with up down restored rows show ?thesis by simp
qed

text \<open>Witness for C9: the empty database, with one row inserted in between.\<close>

theorem upgrade_downgrade_roundtrip_witness:
  "run [upgrade, downgrade] Map.empty = Inr Map.empty
       \<and> (\<exists>db'. upgrade Map.empty = Inr db'
              \<and> dom db' = insert ''marketplace_sources'' (dom (Map.empty :: database))
              \<and> downgrade db' = Inr (db'(''marketplace_sources'' := None))
              \<and> downgrade (insert_rows plain_engine ''marketplace_sources''
                    [[''id'' \<mapsto> SqlInt 1, ''name'' \<mapsto> SqlStr ''hub'']] db') = Inr Map.empty)"
  using upgrade_downgrade_roundtrip
    [of Map.empty plain_engine "[[''id'' \<mapsto> SqlInt 1, ''name'' \<mapsto> SqlStr ''hub'']]"]
  by simp

text \<open>
  Claim C6, as amended. In every state reached from a successful \<^verbatim>\<open>upgrade\<close> by insert
  attempts, the names that are present (not NULL) are pairwise different, and inserting
  a row whose name is present and equal to a stored name fails with an integrity error.
  Rows whose name is NULL are not constrained by the unique constraint.
\<close>

theorem marketplace_sources_names_unique:
  assumes "upgrade db0 = Inr db1"
  shows "distinct (present_names (rows_of ''marketplace_sources''
            (insert_rows eng ''marketplace_sources'' rs db1)))
       \<and> (\<forall>r n. r ''name'' = Some n
              \<and> Some n \<in> set (names_of (rows_of ''marketplace_sources''
                    (insert_rows eng ''marketplace_sources'' rs db1)))
            \<longrightarrow> insert_row eng ''marketplace_sources'' r
                  (insert_rows eng ''marketplace_sources'' rs db1) = Inl IntegrityError)"
proof -
  let ?db = "insert_rows eng ''marketplace_sources'' rs db1"
  from upgrade_then_inserts [OF assms, of eng rs] obtain t where
    tt: "?db ''marketplace_sources'' = Some t
           \<and> columns (tdef t) = [\<lparr>col_name = ''id'', col_type = SA_Integer, nullable = False\<rparr>,
          \<lparr>col_name = ''name'', col_type = SA_String, nullable = True\<rparr>,
          \<lparr>col_name = ''index'', col_type = SA_Integer, nullable = True\<rparr>,
          \<lparr>col_name = ''created'', col_type = SA_TIMESTAMP, nullable = True\<rparr>,
          \<lparr>col_name = ''updated'', col_type = SA_TIMESTAMP, nullable = True\<rparr>,
          \<lparr>col_name = ''object'', col_type = SA_JSON, nullable = True\<rparr>]
           \<and> constraints (tdef t) = [PrimaryKeyConstraint [''id''],
          UniqueConstraint [''name''] (Some ''_marketplace_sources_uc'')]
           \<and> (\<forall>s\<in>set (trows t). \<exists>i. s ''id'' = Some (SqlInt i))
           \<and> (\<forall>s\<in>set (trows t). \<forall>v. s ''name'' = Some v \<longrightarrow> (\<exists>x. v = SqlStr x))
           \<and> distinct (present_names (trows t))" ..
  note t = tt [THEN conjunct1]
  note cols = tt [THEN conjunct2, THEN conjunct1]
  note cons = tt [THEN conjunct2, THEN conjunct2, THEN conjunct1]
  note texts = tt [THEN conjunct2, THEN conjunct2, THEN conjunct2, THEN conjunct2, THEN conjunct1]
  note dist = tt [THEN conjunct2, THEN conjunct2, THEN conjunct2, THEN conjunct2, THEN conjunct2]
  from t have rows: "rows_of ''marketplace_sources'' ?db = trows t"
    by (simp add: rows_of_def)
  have refused: "insert_row eng ''marketplace_sources'' r ?db = Inl IntegrityError"
    if n: "r ''name'' = Some n" and stored: "Some n \<in> set (names_of (trows t))" for r n
  proof -
    from stored obtain s where s: "s \<in> set (trows t)" and sn: "s ''name'' = Some n"
      by (auto simp: names_of_def)
    with texts obtain x where x: "n = SqlStr x" by blast
    with n have conv: "map_option (apply_affinity eng AFF_TEXT) (r ''name'') = Some n" by simp
    have "insert_row eng ''marketplace_sources'' r ?db \<noteq> Inr db'" for db'
      unfolding insert_marketplace_sources
        [where db="?db" and tn="''marketplace_sources''" and t=t and eng=eng and r=r and db'=db',
         OF t cols cons]
      using n conv stored by simp
    then obtain e where e: "insert_row eng ''marketplace_sources'' r ?db = Inl e"
      by (cases "insert_row eng ''marketplace_sources'' r ?db") auto
    from insert_row_Inl [where db="?db" and tn="''marketplace_sources''" and t=t, OF t e] e
    show ?thesis by simp
  qed
  have "\<forall>r n. r ''name'' = Some n \<and> Some n \<in> set (names_of (trows t))
      \<longrightarrow> insert_row eng ''marketplace_sources'' r ?db = Inl IntegrityError"
    using refused by blast
  with dist show ?thesis unfolding rows by (rule conjI)
qed

text \<open>
  Witness for C6: after \<^verbatim>\<open>upgrade\<close> of the empty database and the insert of a row named
  \<^verbatim>\<open>hub\<close>, a second row named \<^verbatim>\<open>hub\<close> is rejected.
\<close>

theorem marketplace_sources_names_unique_witness:
  "\<exists>db1. upgrade Map.empty = Inr db1
       \<and> distinct (present_names (rows_of ''marketplace_sources''
            (insert_rows plain_engine ''marketplace_sources''
               [[''id'' \<mapsto> SqlInt 1, ''name'' \<mapsto> SqlStr ''hub'']] db1)))
       \<and> insert_row plain_engine ''marketplace_sources'' [''id'' \<mapsto> SqlInt 2, ''name'' \<mapsto> SqlStr ''hub'']
            (insert_rows plain_engine ''marketplace_sources''
               [[''id'' \<mapsto> SqlInt 1, ''name'' \<mapsto> SqlStr ''hub'']] db1) = Inl IntegrityError"
proof -
  define db1 where "db1 = projr (upgrade Map.empty)"
  have up: "upgrade Map.empty = Inr db1"
    by (simp add: db1_def upgrade_def create_table_def)
  have stored: "Some (SqlStr ''hub'') \<in> set (names_of (rows_of ''marketplace_sources''
      (insert_rows plain_engine ''marketplace_sources''
         [[''id'' \<mapsto> SqlInt 1, ''name'' \<mapsto> SqlStr ''hub'']] db1)))"
    by (simp add: db1_def insert_eval)
  note th = marketplace_sources_names_unique
    [OF up, of plain_engine "[[''id'' \<mapsto> SqlInt 1, ''name'' \<mapsto> SqlStr ''hub'']]"]
  note a = th [THEN conjunct1]
  from th [THEN conjunct2, THEN spec, THEN spec,
      of "[''id'' \<mapsto> SqlInt 2, ''name'' \<mapsto> SqlStr ''hub'']" "SqlStr ''hub''"] stored
  have b: "insert_row plain_engine ''marketplace_sources'' [''id'' \<mapsto> SqlInt 2, ''name'' \<mapsto> SqlStr ''hub'']
            (insert_rows plain_engine ''marketplace_sources''
               [[''id'' \<mapsto> SqlInt 1, ''name'' \<mapsto> SqlStr ''hub'']] db1) = Inl IntegrityError"
    by simp
  show ?thesis by (rule exI [of _ db1]) (rule conjI [OF up conjI [OF a b]])
qed

text \<open>
  Counterexample to C6 as stated: after \<^verbatim>\<open>upgrade\<close> of the empty database, two rows with
  different ids and no name are both admitted (\<^verbatim>\<open>name\<close> is declared nullable, and NULLs
  do not conflict), so two distinct rows hold the same name value and the second insert
  with an already stored name value did not fail.
\<close>

theorem marketplace_sources_names_counterexample:
  "\<not> isl (run [upgrade,
              insert_row plain_engine ''marketplace_sources'' [''id'' \<mapsto> SqlInt 1],
              insert_row plain_engine ''marketplace_sources'' [''id'' \<mapsto> SqlInt 2]] Map.empty)
   \<and> names_of (rows_of ''marketplace_sources''
        (projr (run [upgrade,
              insert_row plain_engine ''marketplace_sources'' [''id'' \<mapsto> SqlInt 1],
              insert_row plain_engine ''marketplace_sources'' [''id'' \<mapsto> SqlInt 2]] Map.empty)))
       = [None, None]
   \<and> \<not> distinct (names_of (rows_of ''marketplace_sources''
        (projr (run [upgrade,
              insert_row plain_engine ''marketplace_sources'' [''id'' \<mapsto> SqlInt 1],
              insert_row plain_engine ''marketplace_sources'' [''id'' \<mapsto> SqlInt 2]] Map.empty))))"
  by (simp add: insert_eval)

text \<open>
  Claim C10. In the table \<^verbatim>\<open>upgrade\<close> creates, \<^verbatim>\<open>id\<close> is the only column declared not
  nullable; \<^verbatim>\<open>name\<close>, \<^verbatim>\<open>index\<close>, \<^verbatim>\<open>created\<close>, \<^verbatim>\<open>updated\<close> and \<^verbatim>\<open>object\<close> are nullable.
  In every state reached by insert attempts every stored row holds an integer id, and a
  row is admitted exactly when its id is free (the id it gives, an integer or a text the
  engine reads as one, or the new id it is given when it gives none, is held by no
  stored row) and its name is absent or, in its stored form, not yet stored. So a
  missing name never rejects a row, although \<^verbatim>\<open>name\<close> carries the unique constraint: a
  row without a name is admitted with any free integer id, and also without an id as long
  as the largest possible id is not in use, whatever its other columns hold.
\<close>

theorem marketplace_sources_only_id_required:
  assumes "upgrade db0 = Inr db1"
  shows "(\<exists>t. db1 ''marketplace_sources'' = Some t
            \<and> map (\<lambda>c. (col_name c, nullable c)) (columns (tdef t)) =
                [(''id'', False), (''name'', True), (''index'', True), (''created'', True),
                 (''updated'', True), (''object'', True)])
       \<and> (\<forall>s\<in>set (rows_of ''marketplace_sources'' (insert_rows eng ''marketplace_sources'' rs db1)).
             \<exists>i. s ''id'' = Some (SqlInt i))
       \<and> (\<forall>r. (\<exists>db'. insert_row eng ''marketplace_sources'' r (insert_rows eng ''marketplace_sources'' rs db1) = Inr db') \<longleftrightarrow>
              (\<exists>i. given_rowid eng
                      (rowids ''id'' (rows_of ''marketplace_sources'' (insert_rows eng ''marketplace_sources'' rs db1)))
                      (r ''id'') = Some i
                  \<and> i \<notin> set (rowids ''id''
                        (rows_of ''marketplace_sources'' (insert_rows eng ''marketplace_sources'' rs db1))))
              \<and> (r ''name'' = None
                  \<or> map_option (apply_affinity eng AFF_TEXT) (r ''name'')
                      \<notin> set (names_of (rows_of ''marketplace_sources'' (insert_rows eng ''marketplace_sources'' rs db1)))))
       \<and> (\<forall>r i. r ''name'' = None \<and> r ''id'' = Some (SqlInt i)
              \<and> i \<notin> set (rowids ''id'' (rows_of ''marketplace_sources'' (insert_rows eng ''marketplace_sources'' rs db1)))
            \<longrightarrow> (\<exists>db'. insert_row eng ''marketplace_sources'' r (insert_rows eng ''marketplace_sources'' rs db1) = Inr db'))
       \<and> (\<forall>r. r ''name'' = None \<and> r ''id'' = None
              \<and> (\<forall>j\<in>set (rowids ''id'' (rows_of ''marketplace_sources'' (insert_rows eng ''marketplace_sources'' rs db1))).
                    sint j < 9223372036854775807)
            \<longrightarrow> (\<exists>db'. insert_row eng ''marketplace_sources'' r (insert_rows eng ''marketplace_sources'' rs db1) = Inr db'))"
proof -
  let ?db = "insert_rows eng ''marketplace_sources'' rs db1"
  from assms have decl: "\<exists>t. db1 ''marketplace_sources'' = Some t
            \<and> map (\<lambda>c. (col_name c, nullable c)) (columns (tdef t)) =
                [(''id'', False), (''name'', True), (''index'', True), (''created'', True),
                 (''updated'', True), (''object'', True)]"
    by (simp add: upgrade_Inr)
  from upgrade_then_inserts [OF assms, of eng rs] obtain t where
    tt: "?db ''marketplace_sources'' = Some t
           \<and> columns (tdef t) = [\<lparr>col_name = ''id'', col_type = SA_Integer, nullable = False\<rparr>,
          \<lparr>col_name = ''name'', col_type = SA_String, nullable = True\<rparr>,
          \<lparr>col_name = ''index'', col_type = SA_Integer, nullable = True\<rparr>,
          \<lparr>col_name = ''created'', col_type = SA_TIMESTAMP, nullable = True\<rparr>,
          \<lparr>col_name = ''updated'', col_type = SA_TIMESTAMP, nullable = True\<rparr>,
          \<lparr>col_name = ''object'', col_type = SA_JSON, nullable = True\<rparr>]
           \<and> constraints (tdef t) = [PrimaryKeyConstraint [''id''],
          UniqueConstraint [''name''] (Some ''_marketplace_sources_uc'')]
           \<and> (\<forall>s\<in>set (trows t). \<exists>i. s ''id'' = Some (SqlInt i))
           \<and> (\<forall>s\<in>set (trows t). \<forall>v. s ''name'' = Some v \<longrightarrow> (\<exists>x. v = SqlStr x))
           \<and> distinct (present_names (trows t))" ..
  note t = tt [THEN conjunct1]
  note cols = tt [THEN conjunct2, THEN conjunct1]
  note cons = tt [THEN conjunct2, THEN conjunct2, THEN conjunct1]
  note ids = tt [THEN conjunct2, THEN conjunct2, THEN conjunct2, THEN conjunct1]
  from t have rows: "rows_of ''marketplace_sources'' ?db = trows t"
    by (simp add: rows_of_def)
  let ?ids = "rowids ''id'' (trows t)"
  have iff: "(\<exists>db'. insert_row eng ''marketplace_sources'' r ?db = Inr db') \<longleftrightarrow>
      (\<exists>i. given_rowid eng ?ids (r ''id'') = Some i \<and> i \<notin> set ?ids)
      \<and> (r ''name'' = None
          \<or> map_option (apply_affinity eng AFF_TEXT) (r ''name'') \<notin> set (names_of (trows t)))"
    for r
    unfolding insert_marketplace_sources
      [where db="?db" and tn="''marketplace_sources''" and t=t and eng=eng and r=r, OF t cols cons]
    by blast
  have given: "\<exists>db'. insert_row eng ''marketplace_sources'' r ?db = Inr db'"
    if "r ''name'' = None" and "r ''id'' = Some (SqlInt i)" and "i \<notin> set ?ids" for r i
    unfolding iff using that by (simp add: given_rowid_def)
  have auto_id: "\<exists>db'. insert_row eng ''marketplace_sources'' r ?db = Inr db'"
    if "r ''name'' = None" and "r ''id'' = None"
      and "\<forall>j\<in>set ?ids. sint j < 9223372036854775807" for r
    unfolding iff using that new_rowid_fresh [of ?ids eng] by (simp add: given_rowid_def)
  have c2: "\<forall>s\<in>set (rows_of ''marketplace_sources'' ?db). \<exists>i. s ''id'' = Some (SqlInt i)"
    unfolding rows by (rule ids)
  have c3: "\<forall>r. (\<exists>db'. insert_row eng ''marketplace_sources'' r ?db = Inr db') \<longleftrightarrow>
      (\<exists>i. given_rowid eng (rowids ''id'' (rows_of ''marketplace_sources'' ?db)) (r ''id'') = Some i
          \<and> i \<notin> set (rowids ''id'' (rows_of ''marketplace_sources'' ?db)))
      \<and> (r ''name'' = None
          \<or> map_option (apply_affinity eng AFF_TEXT) (r ''name'')
              \<notin> set (names_of (rows_of ''marketplace_sources'' ?db)))"
    unfolding rows by (rule allI) (rule iff)
  have c4: "\<forall>r i. r ''name'' = None \<and> r ''id'' = Some (SqlInt i)
        \<and> i \<notin> set (rowids ''id'' (rows_of ''marketplace_sources'' ?db))
      \<longrightarrow> (\<exists>db'. insert_row eng ''marketplace_sources'' r ?db = Inr db')"
    unfolding rows using given by blast
  have c5: "\<forall>r. r ''name'' = None \<and> r ''id'' = None
        \<and> (\<forall>j\<in>set (rowids ''id'' (rows_of ''marketplace_sources'' ?db)). sint j < 9223372036854775807)
      \<longrightarrow> (\<exists>db'. insert_row eng ''marketplace_sources'' r ?db = Inr db')"
    unfolding rows using auto_id by blast
  show ?thesis by (rule conjI [OF decl conjI [OF c2 conjI [OF c3 conjI [OF c4 c5]]]])
qed

text \<open>
  Witness for C10: after a first row with id 1, the row that holds nothing at all is
  admitted, a row with only the id 2 is admitted, and a second row with the id 1 is
  rejected.
\<close>

theorem marketplace_sources_only_id_required_witness:
  "\<exists>db1. upgrade Map.empty = Inr db1
     \<and> (\<exists>db'. insert_row plain_engine ''marketplace_sources'' Map.empty
              (insert_rows plain_engine ''marketplace_sources'' [[''id'' \<mapsto> SqlInt 1]] db1) = Inr db')
     \<and> (\<exists>db'. insert_row plain_engine ''marketplace_sources'' [''id'' \<mapsto> SqlInt 2]
              (insert_rows plain_engine ''marketplace_sources'' [[''id'' \<mapsto> SqlInt 1]] db1) = Inr db')
     \<and> \<not> (\<exists>db'. insert_row plain_engine ''marketplace_sources'' [''id'' \<mapsto> SqlInt 1]
              (insert_rows plain_engine ''marketplace_sources'' [[''id'' \<mapsto> SqlInt 1]] db1) = Inr db')"
proof -
  define db1 where "db1 = projr (upgrade Map.empty)"
  have up: "upgrade Map.empty = Inr db1"
    by (simp add: db1_def upgrade_def create_table_def)
  let ?db = "insert_rows plain_engine ''marketplace_sources'' [[''id'' \<mapsto> SqlInt 1]] db1"
  have ids: "rowids ''id'' (rows_of ''marketplace_sources'' ?db) = [1]"
    by (simp add: db1_def insert_eval)
  note th = marketplace_sources_only_id_required
    [OF up, of plain_engine "[[''id'' \<mapsto> SqlInt 1]]"]
  from th [THEN conjunct2, THEN conjunct2, THEN conjunct2, THEN conjunct2, THEN spec,
      of Map.empty]
  have a: "\<exists>db'. insert_row plain_engine ''marketplace_sources'' Map.empty ?db = Inr db'"
    unfolding ids by simp
  from th [THEN conjunct2, THEN conjunct2, THEN conjunct2, THEN conjunct1, THEN spec,
      THEN spec, of "[''id'' \<mapsto> SqlInt 2]" 2]
  have b: "\<exists>db'. insert_row plain_engine ''marketplace_sources'' [''id'' \<mapsto> SqlInt 2] ?db = Inr db'"
    unfolding ids by simp
  from th [THEN conjunct2, THEN conjunct2, THEN conjunct1, THEN spec,
      of "[''id'' \<mapsto> SqlInt 1]"]
  have c: "\<not> (\<exists>db'. insert_row plain_engine ''marketplace_sources'' [''id'' \<mapsto> SqlInt 1] ?db = Inr db')"
    unfolding ids by (simp add: given_rowid_def)
  show ?thesis by (rule exI [of _ db1]) (rule conjI [OF up conjI [OF a conjI [OF b c]]])
qed

section \<open>Properties of the frontend spec schemas\<close>

lemma ProjectMembershipFeatureFlag_by_value:
  "enum_by_value ProjectMembershipFeatureFlag_value ProjectMembershipFeatureFlag_members v =
     (if v = PyStr ''enabled'' then Some enabled
      else if v = PyStr ''disabled'' then Some disabled else None)"
  by (simp add: enum_by_value_def ProjectMembershipFeatureFlag_members_def)

lemma AuthenticationFeatureFlag_by_value:
  "enum_by_value AuthenticationFeatureFlag_value AuthenticationFeatureFlag_members v =
     (if v = PyStr ''none'' then Some none
      else if v = PyStr ''basic'' then Some basic
      else if v = PyStr ''bearer'' then Some bearer
      else if v = PyStr ''iguazio'' then Some iguazio else None)"
  by (simp add: enum_by_value_def AuthenticationFeatureFlag_members_def)

lemma project_membership_refused:
  "validate_field ProjectMembershipFeatureFlag_value ProjectMembershipFeatureFlag_members d k = None
     \<longleftrightarrow> d k \<notin> {Some (PyStr ''enabled''), Some (PyStr ''disabled'')}"
  by (cases "d k") (simp_all add: validate_field_def ProjectMembershipFeatureFlag_by_value)

lemma authentication_refused:
  "validate_field AuthenticationFeatureFlag_value AuthenticationFeatureFlag_members d k = None
     \<longleftrightarrow> d k \<notin> {Some (PyStr ''none''), Some (PyStr ''basic''), Some (PyStr ''bearer''),
                 Some (PyStr ''iguazio'')}"
  by (cases "d k") (simp_all add: validate_field_def AuthenticationFeatureFlag_by_value)

lemma project_membership_accepted:
  "validate_field ProjectMembershipFeatureFlag_value ProjectMembershipFeatureFlag_members d k = Some p
     \<longleftrightarrow> d k = Some (PyStr (ProjectMembershipFeatureFlag_value p))"
  by (cases "d k"; cases p)
     (simp_all add: validate_field_def ProjectMembershipFeatureFlag_by_value)

lemma authentication_accepted:
  "validate_field AuthenticationFeatureFlag_value AuthenticationFeatureFlag_members d k = Some a
     \<longleftrightarrow> d k = Some (PyStr (AuthenticationFeatureFlag_value a))"
  by (cases "d k"; cases a)
     (simp_all add: validate_field_def AuthenticationFeatureFlag_by_value)

lemma validate_FeatureFlags_Inr:
  "validate_FeatureFlags d = Inr ff \<longleftrightarrow>
     validate_field ProjectMembershipFeatureFlag_value ProjectMembershipFeatureFlag_members d
       ''project_membership'' = Some (project_membership ff)
     \<and> validate_field AuthenticationFeatureFlag_value AuthenticationFeatureFlag_members d
       ''authentication'' = Some (authentication ff)"
  by (cases ff) (auto simp: validate_FeatureFlags_def Let_def split: option.splits)

lemma validate_FeatureFlags_Inl:
  "validate_FeatureFlags d = Inl e \<longleftrightarrow>
     (validate_field ProjectMembershipFeatureFlag_value ProjectMembershipFeatureFlag_members d
        ''project_membership'' = None
      \<or> validate_field AuthenticationFeatureFlag_value AuthenticationFeatureFlag_members d
        ''authentication'' = None)
     \<and> e = ValidationError
          ((if validate_field ProjectMembershipFeatureFlag_value
                 ProjectMembershipFeatureFlag_members d ''project_membership'' = None
            then [''project_membership''] else []) @
           (if validate_field AuthenticationFeatureFlag_value
                 AuthenticationFeatureFlag_members d ''authentication'' = None
            then [''authentication''] else []))"
  by (auto simp: validate_FeatureFlags_def Let_def split: option.splits)

text \<open>
  Claim C8. Validation of \<^verbatim>\<open>FeatureFlags\<close> accepts its input exactly when
  \<^verbatim>\<open>project_membership\<close> is one of the strings \<^verbatim>\<open>enabled\<close>, \<^verbatim>\<open>disabled\<close> and
  \<^verbatim>\<open>authentication\<close> is one of \<^verbatim>\<open>none\<close>, \<^verbatim>\<open>basic\<close>, \<^verbatim>\<open>bearer\<close>, \<^verbatim>\<open>iguazio\<close>; every other
  input (a missing field, another string, a value that is no string) is rejected with a
  validation error. An accepted input yields the model whose members carry exactly the
  given values, and a validation error lists exactly the fields whose value is outside
  the enumeration.
\<close>

theorem FeatureFlags_closed_enumerations:
  "((\<exists>ff. validate_FeatureFlags d = Inr ff) \<longleftrightarrow>
      d ''project_membership'' \<in> {Some (PyStr ''enabled''), Some (PyStr ''disabled'')}
      \<and> d ''authentication'' \<in> {Some (PyStr ''none''), Some (PyStr ''basic''),
            Some (PyStr ''bearer''), Some (PyStr ''iguazio'')})
   \<and> ((\<exists>fs. validate_FeatureFlags d = Inl (ValidationError fs)) \<longleftrightarrow>
      d ''project_membership'' \<notin> {Some (PyStr ''enabled''), Some (PyStr ''disabled'')}
      \<or> d ''authentication'' \<notin> {Some (PyStr ''none''), Some (PyStr ''basic''),
            Some (PyStr ''bearer''), Some (PyStr ''iguazio'')})
   \<and> (\<forall>ff. validate_FeatureFlags d = Inr ff \<longleftrightarrow>
      d ''project_membership'' = Some (PyStr (ProjectMembershipFeatureFlag_value (project_membership ff)))
      \<and> d ''authentication'' = Some (PyStr (AuthenticationFeatureFlag_value (authentication ff))))
   \<and> (\<forall>fs. validate_FeatureFlags d = Inl (ValidationError fs) \<longrightarrow>
      (''project_membership'' \<in> set fs \<longleftrightarrow>
         d ''project_membership'' \<notin> {Some (PyStr ''enabled''), Some (PyStr ''disabled'')})
      \<and> (''authentication'' \<in> set fs \<longleftrightarrow>
         d ''authentication'' \<notin> {Some (PyStr ''none''), Some (PyStr ''basic''),
            Some (PyStr ''bearer''), Some (PyStr ''iguazio'')}))"
proof -
  let ?P = "validate_field ProjectMembershipFeatureFlag_value
              ProjectMembershipFeatureFlag_members d ''project_membership''"
  let ?A = "validate_field AuthenticationFeatureFlag_value
              AuthenticationFeatureFlag_members d ''authentication''"
  have accepted: "(\<exists>ff. validate_FeatureFlags d = Inr ff) \<longleftrightarrow> \<not> ?P = None \<and> \<not> ?A = None"
    by (auto simp: validate_FeatureFlags_def Let_def split: option.splits)
  have refused: "(\<exists>fs. validate_FeatureFlags d = Inl (ValidationError fs)) \<longleftrightarrow>
      ?P = None \<or> ?A = None"
    by (auto simp: validate_FeatureFlags_def Let_def split: option.splits)
  have built: "validate_FeatureFlags d = Inr ff \<longleftrightarrow>
      d ''project_membership'' = Some (PyStr (ProjectMembershipFeatureFlag_value (project_membership ff)))
      \<and> d ''authentication'' = Some (PyStr (AuthenticationFeatureFlag_value (authentication ff)))"
    for ff
    by (simp only: validate_FeatureFlags_Inr project_membership_accepted authentication_accepted)
  have listed: "(''project_membership'' \<in> set fs \<longleftrightarrow> ?P = None)
      \<and> (''authentication'' \<in> set fs \<longleftrightarrow> ?A = None)"
    if "validate_FeatureFlags d = Inl (ValidationError fs)" for fs
    using that by (simp add: validate_FeatureFlags_Inl split: if_splits)
  show ?thesis
    using accepted refused built listed
    unfolding project_membership_refused authentication_refused
    by (intro conjI allI impI) simp_all
qed

text \<open>
  Witness for C8: \<^verbatim>\<open>enabled\<close> with \<^verbatim>\<open>iguazio\<close> is accepted; \<^verbatim>\<open>Enabled\<close> (capitalised) is
  refused, and the error lists that field only.
\<close>

theorem FeatureFlags_closed_enumerations_witness:
  "validate_FeatureFlags
      [''project_membership'' \<mapsto> PyStr ''enabled'', ''authentication'' \<mapsto> PyStr ''iguazio'']
     = Inr \<lparr>project_membership = enabled, authentication = iguazio\<rparr>
   \<and> (\<exists>fs. validate_FeatureFlags
      [''project_membership'' \<mapsto> PyStr ''Enabled'', ''authentication'' \<mapsto> PyStr ''iguazio'']
     = Inl (ValidationError fs) \<and> ''project_membership'' \<in> set fs
       \<and> ''authentication'' \<notin> set fs)"
proof -
  note ok = FeatureFlags_closed_enumerations
    [of "[''project_membership'' \<mapsto> PyStr ''enabled'', ''authentication'' \<mapsto> PyStr ''iguazio'']",
     THEN conjunct2, THEN conjunct2, THEN conjunct1, THEN spec,
     of "\<lparr>project_membership = enabled, authentication = iguazio\<rparr>"]
  have a: "validate_FeatureFlags
      [''project_membership'' \<mapsto> PyStr ''enabled'', ''authentication'' \<mapsto> PyStr ''iguazio'']
     = Inr \<lparr>project_membership = enabled, authentication = iguazio\<rparr>"
    unfolding ok by simp
  note bad = FeatureFlags_closed_enumerations
    [of "[''project_membership'' \<mapsto> PyStr ''Enabled'', ''authentication'' \<mapsto> PyStr ''iguazio'']"]
  from bad [THEN conjunct2, THEN conjunct1] obtain fs where
    fs: "validate_FeatureFlags
      [''project_membership'' \<mapsto> PyStr ''Enabled'', ''authentication'' \<mapsto> PyStr ''iguazio'']
     = Inl (ValidationError fs)" by auto
  from bad [THEN conjunct2, THEN conjunct2, THEN conjunct2, THEN spec, THEN mp, OF fs]
  have "''project_membership'' \<in> set fs \<and> ''authentication'' \<notin> set fs" by simp
  with a fs show ?thesis by blast
qed

section \<open>Properties of the TSDB connector\<close>

lemma read_metric_no_data:
  "is_no_data (read_metric c ep start end_t ty m) \<longleftrightarrow>
     matching c (type_table ty) ep start end_t (full_name m) = []"
  by (cases ty) (simp_all add: read_metric_def Let_def)

lemma read_metric_full_name: "reply_full_name (read_metric c ep start end_t ty m) = full_name m"
  by (cases ty) (simp_all add: read_metric_def Let_def)

lemma read_metric_marker:
  "matching c (type_table ty) ep start end_t (full_name m) = [] \<Longrightarrow>
     read_metric c ep start end_t ty m = ModelEndpointMonitoringMetricNoData (full_name m) ty"
  by (simp add: read_metric_def)

text \<open>
  Claim C2. The list \<^verbatim>\<open>read_metrics_data\<close> returns has one entry per requested
  descriptor, in the order of the input list \<^verbatim>\<open>metrics\<close>: it is as long as the input, its
  entries carry the full names of the input descriptors in the same order, and the entry
  at each position is the resolution of the descriptor at that position, which is the
  no-data marker exactly when no record matches the descriptor and the value series
  otherwise.
\<close>

theorem read_metrics_data_order:
  "length (read_metrics_data c ep start end_t metrics ty) = length metrics
   \<and> map reply_full_name (read_metrics_data c ep start end_t metrics ty) = map full_name metrics
   \<and> (\<forall>i < length metrics.
         read_metrics_data c ep start end_t metrics ty ! i
           = read_metric c ep start end_t ty (metrics ! i)
         \<and> (is_no_data (read_metrics_data c ep start end_t metrics ty ! i) \<longleftrightarrow>
              matching c (type_table ty) ep start end_t (full_name (metrics ! i)) = []))"
proof -
  have len: "length (read_metrics_data c ep start end_t metrics ty) = length metrics"
    by (simp add: read_metrics_data_def)
  have names: "map reply_full_name (read_metrics_data c ep start end_t metrics ty)
      = map full_name metrics"
    by (simp add: read_metrics_data_def read_metric_full_name comp_def)
  have entry: "read_metrics_data c ep start end_t metrics ty ! i
      = read_metric c ep start end_t ty (metrics ! i)" if "i < length metrics" for i
    using that by (simp add: read_metrics_data_def)
  from len names entry show ?thesis by (simp add: read_metric_no_data)
qed

text \<open>
  Witness for C2: two descriptors, the second with one record in range; the entry at
  position 1 is the second descriptor's value series.
\<close>

theorem read_metrics_data_order_witness:
  "map reply_full_name
     (read_metrics_data
        \<lparr>project = ''p'',
         tables = [''metrics'' \<mapsto> [\<lparr>endpoint_id = ''ep1'', rec_time = 150, metric = ''acc'',
                                   payload = (7::int)\<rparr>]]\<rparr>
        ''ep1'' 100 200 [\<lparr>full_name = ''f1''\<rparr>, \<lparr>full_name = ''acc''\<rparr>] TYPE_metrics)
     = [''f1'', ''acc'']
   \<and> read_metrics_data
        \<lparr>project = ''p'',
         tables = [''metrics'' \<mapsto> [\<lparr>endpoint_id = ''ep1'', rec_time = 150, metric = ''acc'',
                                   payload = (7::int)\<rparr>]]\<rparr>
        ''ep1'' 100 200 [\<lparr>full_name = ''f1''\<rparr>, \<lparr>full_name = ''acc''\<rparr>] TYPE_metrics ! 1
     = ModelEndpointMonitoringMetricValues ''acc'' [(150, 7)]"
proof -
  let ?c = "\<lparr>project = ''p'',
         tables = [''metrics'' \<mapsto> [\<lparr>endpoint_id = ''ep1'', rec_time = 150, metric = ''acc'',
                                   payload = (7::int)\<rparr>]]\<rparr>"
  let ?ms = "[\<lparr>full_name = ''f1''\<rparr>, \<lparr>full_name = ''acc''\<rparr>]"
  note th = read_metrics_data_order [of ?c "''ep1''" 100 200 ?ms TYPE_metrics]
  from th [THEN conjunct2, THEN conjunct1]
  have a: "map reply_full_name (read_metrics_data ?c ''ep1'' 100 200 ?ms TYPE_metrics)
     = [''f1'', ''acc'']" by simp
  have "(1::nat) < length ?ms" by simp
  from th [THEN conjunct2, THEN conjunct2, THEN spec, THEN mp, OF this, THEN conjunct1]
  have b: "read_metrics_data ?c ''ep1'' 100 200 ?ms TYPE_metrics ! 1
     = ModelEndpointMonitoringMetricValues ''acc'' [(150, 7)]"
    by (simp add: read_metric_def matching_def table_records_def in_range_def series_def)
  show ?thesis by (rule conjI [OF a b])
qed

lemma filter_empty_iff: "filter P xs = [] \<longleftrightarrow> (\<forall>x\<in>set xs. \<not> P x)"
  by (simp add: filter_empty_conv)

lemma create_tables_init:
  "tables (create_tables (TSDBConnector_init p)) tn =
     (if tn \<in> {''app_results'', ''metrics'', ''predictions''} then Some [] else None)"
  by (simp add: create_tables_def TSDBConnector_init_def)

text \<open>
  Claim C1, as amended. When no record matches, \<^verbatim>\<open>read_metrics_data\<close> returns one tagged
  no-data marker per requested descriptor and \<^verbatim>\<open>read_predictions\<close> returns the tagged
  no-data marker. \<^verbatim>\<open>read_prediction_metric_for_endpoint_if_exists\<close>, which takes no time
  range, returns no marker: it returns \<^verbatim>\<open>None\<close> exactly when the endpoint has no recorded
  prediction, and the descriptor of the \<^verbatim>\<open>invocations\<close> metric, and no other descriptor,
  exactly when it has one.
\<close>

theorem no_data_markers:
  "((\<forall>m\<in>set metrics. matching c (type_table ty) ep start end_t (full_name m) = []) \<longrightarrow>
      read_metrics_data c ep start end_t metrics ty
        = map (\<lambda>m. ModelEndpointMonitoringMetricNoData (full_name m) ty) metrics)
   \<and> ((\<forall>r\<in>set (table_records c ''predictions''). \<not> in_range ep start end_t r) \<longrightarrow>
      read_predictions aggregate c ep start end_t w
        = ModelEndpointMonitoringMetricNoData ''invocations'' TYPE_metrics)
   \<and> (read_prediction_metric_for_endpoint_if_exists c ep = None \<longleftrightarrow>
        (\<forall>r\<in>set (table_records c ''predictions''). endpoint_id r \<noteq> ep))
   \<and> (read_prediction_metric_for_endpoint_if_exists c ep = Some \<lparr>full_name = ''invocations''\<rparr>
        \<longleftrightarrow> (\<exists>r\<in>set (table_records c ''predictions''). endpoint_id r = ep))
   \<and> (\<forall>m. read_prediction_metric_for_endpoint_if_exists c ep = Some m
        \<longrightarrow> m = \<lparr>full_name = ''invocations''\<rparr>)"
proof -
  have a: "read_metrics_data c ep start end_t metrics ty
        = map (\<lambda>m. ModelEndpointMonitoringMetricNoData (full_name m) ty) metrics"
    if "\<forall>m\<in>set metrics. matching c (type_table ty) ep start end_t (full_name m) = []"
    using that by (simp add: read_metrics_data_def read_metric_marker)
  have b: "read_predictions aggregate c ep start end_t w
        = ModelEndpointMonitoringMetricNoData ''invocations'' TYPE_metrics"
    if "\<forall>r\<in>set (table_records c ''predictions''). \<not> in_range ep start end_t r"
  proof -
    from that have "filter (in_range ep start end_t) (table_records c ''predictions'') = []"
      by (simp add: filter_empty_iff)
    then show ?thesis by (simp add: read_predictions_def)
  qed
  have c: "read_prediction_metric_for_endpoint_if_exists c ep = None \<longleftrightarrow>
        (\<forall>r\<in>set (table_records c ''predictions''). endpoint_id r \<noteq> ep)"
    by (simp add: read_prediction_metric_for_endpoint_if_exists_def list_ex_iff)
  have d: "read_prediction_metric_for_endpoint_if_exists c ep = Some \<lparr>full_name = ''invocations''\<rparr>
        \<longleftrightarrow> (\<exists>r\<in>set (table_records c ''predictions''). endpoint_id r = ep)"
    by (simp add: read_prediction_metric_for_endpoint_if_exists_def list_ex_iff)
  have e: "\<forall>m. read_prediction_metric_for_endpoint_if_exists c ep = Some m
        \<longrightarrow> m = \<lparr>full_name = ''invocations''\<rparr>"
    by (auto simp: read_prediction_metric_for_endpoint_if_exists_def split: if_splits)
  have ab: "((\<forall>m\<in>set metrics. matching c (type_table ty) ep start end_t (full_name m) = []) \<longrightarrow>
      read_metrics_data c ep start end_t metrics ty
        = map (\<lambda>m. ModelEndpointMonitoringMetricNoData (full_name m) ty) metrics)
   \<and> ((\<forall>r\<in>set (table_records c ''predictions''). \<not> in_range ep start end_t r) \<longrightarrow>
      read_predictions aggregate c ep start end_t w
        = ModelEndpointMonitoringMetricNoData ''invocations'' TYPE_metrics)"
    using a b by blast
  show ?thesis
    by (rule conjI [OF ab [THEN conjunct1] conjI [OF ab [THEN conjunct2]
          conjI [OF c conjI [OF d e]]]])
qed

text \<open>
  Witness for C1: one record of the endpoint \<^verbatim>\<open>ep1\<close> outside the queried range and no
  prediction of it, so the three operations report no data for it; and one prediction of
  the endpoint \<^verbatim>\<open>ep2\<close>, for which the descriptor is returned.
\<close>

theorem no_data_markers_witness:
  "read_metrics_data
      \<lparr>project = ''p'',
       tables = [''metrics'' \<mapsto> [\<lparr>endpoint_id = ''ep1'', rec_time = 50, metric = ''acc'',
                                 payload = (7::int)\<rparr>],
                 ''predictions'' \<mapsto> [\<lparr>endpoint_id = ''ep2'', rec_time = 150,
                                     metric = ''invocations'', payload = 1\<rparr>]]\<rparr>
      ''ep1'' 100 200 [\<lparr>full_name = ''acc''\<rparr>] TYPE_metrics
     = [ModelEndpointMonitoringMetricNoData ''acc'' TYPE_metrics]
   \<and> read_predictions (\<lambda>w vs. vs)
      \<lparr>project = ''p'',
       tables = [''metrics'' \<mapsto> [\<lparr>endpoint_id = ''ep1'', rec_time = 50, metric = ''acc'',
                                 payload = (7::int)\<rparr>],
                 ''predictions'' \<mapsto> [\<lparr>endpoint_id = ''ep2'', rec_time = 150,
                                     metric = ''invocations'', payload = 1\<rparr>]]\<rparr>
      ''ep1'' 100 200 None
     = ModelEndpointMonitoringMetricNoData ''invocations'' TYPE_metrics
   \<and> read_prediction_metric_for_endpoint_if_exists
      \<lparr>project = ''p'',
       tables = [''metrics'' \<mapsto> [\<lparr>endpoint_id = ''ep1'', rec_time = 50, metric = ''acc'',
                                 payload = (7::int)\<rparr>],
                 ''predictions'' \<mapsto> [\<lparr>endpoint_id = ''ep2'', rec_time = 150,
                                     metric = ''invocations'', payload = 1\<rparr>]]\<rparr>
      ''ep1'' = None
   \<and> read_prediction_metric_for_endpoint_if_exists
      \<lparr>project = ''p'',
       tables = [''metrics'' \<mapsto> [\<lparr>endpoint_id = ''ep1'', rec_time = 50, metric = ''acc'',
                                 payload = (7::int)\<rparr>],
                 ''predictions'' \<mapsto> [\<lparr>endpoint_id = ''ep2'', rec_time = 150,
                                     metric = ''invocations'', payload = 1\<rparr>]]\<rparr>
      ''ep2'' = Some \<lparr>full_name = ''invocations''\<rparr>"
proof -
  let ?c = "\<lparr>project = ''p'',
       tables = [''metrics'' \<mapsto> [\<lparr>endpoint_id = ''ep1'', rec_time = 50, metric = ''acc'',
                                 payload = (7::int)\<rparr>],
                 ''predictions'' \<mapsto> [\<lparr>endpoint_id = ''ep2'', rec_time = 150,
                                     metric = ''invocations'', payload = 1\<rparr>]]\<rparr>"
  note th = no_data_markers
    [of "[\<lparr>full_name = ''acc''\<rparr>]" ?c TYPE_metrics "''ep1''" 100 200 "\<lambda>w vs. vs" None]
  have h1: "\<forall>m\<in>set [\<lparr>full_name = ''acc''\<rparr>].
      matching ?c (type_table TYPE_metrics) ''ep1'' 100 200 (full_name m) = []"
    by (simp add: matching_def table_records_def in_range_def)
  have h2: "\<forall>r\<in>set (table_records ?c ''predictions''). \<not> in_range ''ep1'' 100 200 r"
    by (simp add: table_records_def in_range_def)
  have h3: "\<forall>r\<in>set (table_records ?c ''predictions''). endpoint_id r \<noteq> ''ep1''"
    by (simp add: table_records_def)
  have h4: "\<exists>r\<in>set (table_records ?c ''predictions''). endpoint_id r = ''ep2''"
    by (simp add: table_records_def)
  from th [THEN conjunct1, THEN mp, OF h1]
  have a: "read_metrics_data ?c ''ep1'' 100 200 [\<lparr>full_name = ''acc''\<rparr>] TYPE_metrics
     = [ModelEndpointMonitoringMetricNoData ''acc'' TYPE_metrics]" by simp
  note b = th [THEN conjunct2, THEN conjunct1, THEN mp, OF h2]
  note c = th [THEN conjunct2, THEN conjunct2, THEN conjunct1, THEN iffD2, OF h3]
  note th2 = no_data_markers
    [of "[\<lparr>full_name = ''acc''\<rparr>]" ?c TYPE_metrics "''ep2''" 100 200 "\<lambda>w vs. vs" None]
  note d = th2 [THEN conjunct2, THEN conjunct2, THEN conjunct2, THEN conjunct1, THEN iffD2,
      OF h4]
  show ?thesis by (rule conjI [OF a conjI [OF b conjI [OF c d]]])
qed

text \<open>
  Counterexample to C1 as stated: on a connector with freshly created, empty tables,
  \<^verbatim>\<open>read_prediction_metric_for_endpoint_if_exists\<close> returns the bare \<^verbatim>\<open>None\<close>, as its
  declared return type and docstring say, and not a tagged no-data value.
\<close>

theorem read_prediction_metric_counterexample:
  "read_prediction_metric_for_endpoint_if_exists
     (create_tables (TSDBConnector_init ''p'') :: int TSDBConnector) ''ep1'' = None"
  by (simp add: read_prediction_metric_for_endpoint_if_exists_def table_records_def
      create_tables_init)

text \<open>
  Claim C3. \<^verbatim>\<open>get_records\<close> fails with the not-found error exactly when \<^verbatim>\<open>table\<close> names no
  existing table: it fails with no other error, and returns a result for every existing
  table. On a connector whose tables were just created, the existing tables are
  \<^verbatim>\<open>app_results\<close>, \<^verbatim>\<open>metrics\<close> and \<^verbatim>\<open>predictions\<close>.
\<close>

theorem get_records_not_found:
  "(get_records filter_ok c table start end_t cols filter_query = Inl MLRunNotFoundError
      \<longleftrightarrow> tables c table = None)
   \<and> (\<forall>e. get_records filter_ok c table start end_t cols filter_query = Inl e
          \<longrightarrow> e = MLRunNotFoundError \<and> tables c table = None)
   \<and> ((\<exists>df. get_records filter_ok c table start end_t cols filter_query = Inr df)
      \<longleftrightarrow> tables c table \<noteq> None)
   \<and> (get_records filter_ok (create_tables (TSDBConnector_init p)) table start end_t cols
         filter_query = Inl MLRunNotFoundError
      \<longleftrightarrow> table \<notin> {''app_results'', ''metrics'', ''predictions''})"
proof (cases "tables c table")
  case None
  then have "get_records filter_ok c table start end_t cols filter_query
      = Inl MLRunNotFoundError"
    by (simp add: get_records_def)
  with None show ?thesis
    by (simp add: get_records_def create_tables_init)
next
  case (Some rs)
  then have "\<exists>df. get_records filter_ok c table start end_t cols filter_query = Inr df"
    by (simp add: get_records_def)
  with Some show ?thesis
    by (auto simp: get_records_def create_tables_init)
qed

text \<open>Witness for C3: an unknown table name and an existing, empty table.\<close>

theorem get_records_not_found_witness:
  "get_records (\<lambda>q r. True) (create_tables (TSDBConnector_init ''p'') :: int TSDBConnector)
      ''no_such_table'' 0 10 None [] = Inl MLRunNotFoundError
   \<and> get_records (\<lambda>q r. True) (create_tables (TSDBConnector_init ''p'') :: int TSDBConnector)
      ''metrics'' 0 10 None [] = Inr []"
proof -
  let ?c = "create_tables (TSDBConnector_init ''p'') :: int TSDBConnector"
  note th = get_records_not_found [of "\<lambda>q r. True" ?c _ 0 10 None "[]" "''p''"]
  have a: "get_records (\<lambda>q r. True) ?c ''no_such_table'' 0 10 None [] = Inl MLRunNotFoundError"
    unfolding th [of "''no_such_table''", THEN conjunct1] by (simp add: create_tables_init)
  from th [of "''metrics''", THEN conjunct2, THEN conjunct2, THEN conjunct1]
  obtain df where df: "get_records (\<lambda>q r. True) ?c ''metrics'' 0 10 None [] = Inr df"
    by (auto simp: create_tables_init)
  then have "df = []" by (simp add: get_records_def create_tables_init)
  with a df show ?thesis by simp
qed

text \<open>
  Claim C5. A call of \<^verbatim>\<open>write_application_event\<close> without the \<^verbatim>\<open>kind\<close> argument binds
  \<^verbatim>\<open>kind\<close> to \<^verbatim>\<open>WriterEventKind.RESULT\<close>, whose value is the string \<^verbatim>\<open>result\<close>: the call
  is the same as the call with the explicit kind \<^verbatim>\<open>RESULT\<close>, and when it succeeds the
  event has been appended to the table of results and the table of metrics is unchanged.
\<close>

theorem write_application_event_default_kind:
  "write_application_event_kind None = RESULT
   \<and> WriterEventKind_value (write_application_event_kind None) = ''result''
   \<and> write_application_event c event None = write_application_event c event (Some RESULT)
   \<and> (\<forall>c'. write_application_event c event None = Inr c' \<longrightarrow>
         table_records c' (kind_table RESULT) = table_records c (kind_table RESULT) @ [event]
         \<and> table_records c' (kind_table METRIC) = table_records c (kind_table METRIC))"
  by (auto simp: write_application_event_kind_def write_application_event_def Let_def
      table_records_def split: option.splits)

text \<open>Witness for C5: one event written without a kind to freshly created tables.\<close>

theorem write_application_event_default_kind_witness:
  "\<exists>c'. write_application_event (create_tables (TSDBConnector_init ''p''))
       \<lparr>endpoint_id = ''ep1'', rec_time = 5, metric = ''drift'', payload = (1::int)\<rparr> None = Inr c'
     \<and> table_records c' ''app_results''
         = [\<lparr>endpoint_id = ''ep1'', rec_time = 5, metric = ''drift'', payload = 1\<rparr>]
     \<and> table_records c' ''metrics'' = []"
proof -
  let ?c = "create_tables (TSDBConnector_init ''p'') :: int TSDBConnector"
  let ?e = "\<lparr>endpoint_id = ''ep1'', rec_time = 5, metric = ''drift'', payload = (1::int)\<rparr>"
  obtain c' where w: "write_application_event ?c ?e None = Inr c'"
    by (simp add: write_application_event_def write_application_event_kind_def
        create_tables_init)
  from write_application_event_default_kind
    [of ?c ?e, THEN conjunct2, THEN conjunct2, THEN conjunct2, THEN spec, THEN mp, OF w]
  have "table_records c' ''app_results'' = [?e] \<and> table_records c' ''metrics'' = []"
    by (simp add: table_records_def create_tables_init)
  with w show ?thesis by blast
qed

end
